theory Spec2Isabelle
  imports Complex_Main "HOL-Library.Word"
begin

unbundle bit_operations_syntax

section \<open>Python values, exceptions and strings\<close>

text \<open>
  The service passes detections around as Python dicts from field names to values of
  several types. A value is one of the shapes the detector and the mapper handle; floats
  are idealised as reals. A detection is a partial map from keys to values, so that an
  absent key and a present key are different inputs, as for \<^verbatim>\<open>dict.get\<close>.
\<close>

datatype pyval =
    PNone
  | PBool bool
  | PInt int
  | PFloat real
  | PStr string
  | PList "pyval list"

text \<open>
  Exceptions are values. \<open>HTTPException\<close> carries its status code; the other
  constructors are the Python exception classes the source raises or can meet.
  Every constructor is an instance of Python's \<^verbatim>\<open>Exception\<close>, so a handler
  \<^verbatim>\<open>except Exception\<close> catches all of them.
\<close>

datatype exn =
    AttributeError
  | ImportError
  | RuntimeError
  | ValueError
  | TypeError
  | KeyError
  | IndexError
  | NotImplementedError
  | BinasciiError
  | OSError
  | OverflowError
  | HTTPException nat

type_synonym detection = "string \<rightharpoonup> pyval"

text \<open>
  \<^verbatim>\<open>str.lower()\<close> on the code points below 256: the ASCII capitals and the
  Latin-1 capitals (192 to 222 except the multiplication sign 215) move up by 32.
\<close>

definition lower_char :: "char \<Rightarrow> char" where
  "lower_char c =
     (let n = (of_char c :: nat)
      in if (65 \<le> n \<and> n \<le> 90) \<or> (192 \<le> n \<and> n \<le> 222 \<and> n \<noteq> 215)
         then char_of (n + 32) else c)"

definition lower :: "string \<Rightarrow> string" where
  "lower s = map lower_char s"

text \<open>\<^verbatim>\<open>s.startswith(p)\<close> and the substring test \<^verbatim>\<open>sub in s\<close>.\<close>

fun startswith :: "string \<Rightarrow> string \<Rightarrow> bool" where
  "startswith s [] = True"
| "startswith [] (p # ps) = False"
| "startswith (c # cs) (p # ps) = (c = p \<and> startswith cs ps)"

fun py_in :: "string \<Rightarrow> string \<Rightarrow> bool" where
  "py_in sub [] = (sub = [])"
| "py_in sub (c # cs) = (startswith (c # cs) sub \<or> py_in sub cs)"

section \<open>The class mapper (inference/mapper.py)\<close>

text \<open>
  The tables of \<^verbatim>\<open>WasteMapper.__init__\<close>. A Python dict iterates in insertion
  order, and the partial match below depends on that order, so the tables are association
  lists in the order of the source.
\<close>

definition class_mapping :: "(string \<times> string) list" where
  "class_mapping =
    [(''bottle'', ''plastic_bottle''),
     (''plastic_bottle'', ''plastic_bottle''),
     (''water_bottle'', ''plastic_bottle''),
     (''pet_bottle'', ''plastic_bottle''),
     (''wrapper'', ''plastic_wrapper''),
     (''plastic_wrapper'', ''plastic_wrapper''),
     (''bag'', ''plastic_wrapper''),
     (''plastic_bag'', ''plastic_wrapper''),
     (''cup'', ''paper_cup''),
     (''paper_cup'', ''paper_cup''),
     (''paper'', ''paper_cup''),
     (''cardboard'', ''cardboard_box''),
     (''cardboard_box'', ''cardboard_box''),
     (''box'', ''cardboard_box''),
     (''food'', ''food_waste''),
     (''food_waste'', ''food_waste''),
     (''organic'', ''food_waste''),
     (''banana'', ''food_waste''),
     (''apple'', ''food_waste''),
     (''glass'', ''glass_bottle''),
     (''glass_bottle'', ''glass_bottle''),
     (''bottle_glass'', ''glass_bottle''),
     (''can'', ''metal_can''),
     (''metal_can'', ''metal_can''),
     (''aluminum'', ''metal_can''),
     (''tin'', ''metal_can''),
     (''cloth'', ''cloth''),
     (''fabric'', ''cloth''),
     (''textile'', ''cloth''),
     (''clothing'', ''cloth'')]"

definition disposal_instructions :: "(string \<times> string) list" where
  "disposal_instructions =
    [(''plastic_bottle'', ''Rinse and place in recycling bin. Remove caps if required locally.''),
     (''plastic_wrapper'', ''Check local guidelines. Most thin plastic wrappers go in general waste.''),
     (''paper_cup'', ''Remove plastic lining if possible. Place in paper recycling or general waste.''),
     (''food_waste'', ''Compost if available, otherwise place in organic waste bin.''),
     (''glass_bottle'', ''Rinse and place in glass recycling bin. Remove labels if required.''),
     (''metal_can'', ''Rinse and place in metal recycling bin. Crush to save space.''),
     (''cardboard_box'', ''Flatten and place in paper/cardboard recycling bin.''),
     (''cloth'', ''Donate if usable, otherwise place in textile recycling or general waste.'')]"

definition reuse_ideas :: "(string \<times> string list) list" where
  "reuse_ideas =
    [(''plastic_bottle'',
        [''Cut and use as plant propagation containers'',
         ''Create DIY watering globes for potted plants'',
         ''Transform into storage containers for small items'']),
     (''plastic_wrapper'',
        [''Use as protective wrap for fragile items during moving'',
         ''Create DIY waterproof covers for outdoor items'',
         ''Repurpose as temporary storage bags'']),
     (''paper_cup'',
        [''Use as seed starter pots (biodegradable)'',
         ''Create small organizers for desk supplies'',
         ''Use for arts and crafts projects'']),
     (''food_waste'',
        [''Compost to create nutrient-rich soil'',
         ''Use vegetable scraps to make homemade stock'',
         ''Regrow vegetables from scraps (e.g., green onions, lettuce)'']),
     (''glass_bottle'',
        [''Repurpose as decorative vases or candle holders'',
         ''Use for storing homemade preserves or oils'',
         ''Create DIY table lamps or pendant lights'']),
     (''metal_can'',
        [''Use as planters for small herbs or succulents'',
         ''Create rustic utensil holders or organizers'',
         ''Transform into candle lanterns with decorative holes'']),
     (''cardboard_box'',
        [''Use as drawer dividers or closet organizers'',
         ''Create storage boxes for seasonal items'',
         ''Repurpose as play structures or forts for children'']),
     (''cloth'',
        [''Cut into rags for cleaning'',
         ''Create patchwork quilts or blankets'',
         ''Transform into reusable shopping bags or totes''])]"

definition dustbin_mapping :: "(string \<times> string) list" where
  "dustbin_mapping =
    [(''plastic_bottle'', ''Blue Bin''),
     (''plastic_wrapper'', ''Red Bin''),
     (''paper_cup'', ''Blue Bin''),
     (''food_waste'', ''Green Bin''),
     (''glass_bottle'', ''Blue Bin''),
     (''metal_can'', ''Blue Bin''),
     (''cardboard_box'', ''Blue Bin''),
     (''cloth'', ''Yellow Bin'')]"

text \<open>\<^verbatim>\<open>get_all_classes\<close>: the keys of the disposal table, the eight waste categories.\<close>

definition get_all_classes :: "string list" where
  "get_all_classes = map fst disposal_instructions"

text \<open>
  \<^verbatim>\<open>not waste_class\<close>: Python's truth test on a value that is \<^verbatim>\<open>None\<close> or a
  string; the empty string is falsy too.
\<close>

definition not_waste_class :: "string option \<Rightarrow> bool" where
  "not_waste_class w = (case w of None \<Rightarrow> True | Some s \<Rightarrow> s = [])"

text \<open>
  The partial-matching loop over \<^verbatim>\<open>class_mapping.items()\<close>: the first key that is
  contained in the lowered label, or that contains it, gives the category, and the loop
  breaks there.
\<close>

fun partial_match :: "(string \<times> string) list \<Rightarrow> string \<Rightarrow> string option" where
  "partial_match [] raw_class = None"
| "partial_match ((key, val) # rest) raw_class =
     (if py_in key raw_class \<or> py_in raw_class key then Some val
      else partial_match rest raw_class)"

text \<open>
  The three steps of \<^verbatim>\<open>map_detection\<close> that choose the category from the lowered
  label: exact lookup, partial match when the lookup gave nothing, default when there is
  still nothing. A loop that finds no key leaves \<^verbatim>\<open>waste_class\<close> as it was.
\<close>

definition waste_class_of :: "string \<Rightarrow> string" where
  "waste_class_of raw_class =
     (let w0 = map_of class_mapping raw_class;
          w1 = (if not_waste_class w0
                then (case partial_match class_mapping raw_class of
                        Some v \<Rightarrow> Some v
                      | None \<Rightarrow> w0)
                else w0)
      in case w1 of
           None \<Rightarrow> ''plastic_bottle''
         | Some s \<Rightarrow> if s = [] then ''plastic_bottle'' else s)"

record mapped_detection =
  md_class :: string
  md_confidence :: pyval
  md_bbox :: pyval
  md_class_id :: pyval
  md_disposal :: string
  md_ideas :: "string list"
  md_dustbin :: string

text \<open>\<^verbatim>\<open>d.get(key, default)\<close>.\<close>

definition dict_get :: "('k \<rightharpoonup> 'v) \<Rightarrow> 'k \<Rightarrow> 'v \<Rightarrow> 'v" where
  "dict_get d k dflt = (case d k of None \<Rightarrow> dflt | Some v \<Rightarrow> v)"

text \<open>
  \<^verbatim>\<open>detection.get("class_name", "").lower()\<close>: a value that is present and is not a
  string has no method \<^verbatim>\<open>lower\<close>, which raises AttributeError.
\<close>

definition raw_class_of :: "detection \<Rightarrow> exn + string" where
  "raw_class_of d =
     (case dict_get d ''class_name'' (PStr []) of
        PStr s \<Rightarrow> Inr (lower s)
      | _ \<Rightarrow> Inl AttributeError)"

definition map_detection :: "detection \<Rightarrow> exn + mapped_detection" where
  "map_detection d =
     (case raw_class_of d of
        Inl e \<Rightarrow> Inl e
      | Inr raw_class \<Rightarrow>
          (let waste_class = waste_class_of raw_class
           in Inr \<lparr> md_class = waste_class,
                    md_confidence = dict_get d ''confidence'' (PFloat 0),
                    md_bbox = dict_get d ''bbox'' (PList [PInt 0, PInt 0, PInt 0, PInt 0]),
                    md_class_id = dict_get d ''class_id'' (PInt 0),
                    md_disposal = dict_get (map_of disposal_instructions) waste_class
                                    ''Check local guidelines.'',
                    md_ideas = dict_get (map_of reuse_ideas) waste_class [],
                    md_dustbin = dict_get (map_of dustbin_mapping) waste_class ''Blue Bin'' \<rparr>))"

section \<open>The image codec (utils/image_io.py)\<close>

type_synonym byte = "8 word"
type_synonym bytes = "byte list"

text \<open>A single-channel mask: rows of \<^verbatim>\<open>uint8\<close> pixels (a numpy array of shape (H, W)).\<close>

type_synonym mask = "byte list list"

subsection \<open>Python's \<^verbatim>\<open>base64.b64encode\<close> and \<^verbatim>\<open>base64.b64decode\<close>\<close>

text \<open>
  The two library functions that \<^verbatim>\<open>image_io.py\<close> calls, after CPython's
  \<^verbatim>\<open>binascii\<close>. The encoder writes four characters of the standard alphabet for every
  three bytes and pads the last group with \<^verbatim>\<open>=\<close>.
\<close>

definition b64_alphabet :: string where
  "b64_alphabet = ''ABCDEFGHIJKLMNOPQRSTUVWXYZabcdefghijklmnopqrstuvwxyz0123456789+/''"

definition b64_char :: "byte \<Rightarrow> char" where
  "b64_char v = b64_alphabet ! unat v"

fun b64encode :: "bytes \<Rightarrow> string" where
  "b64encode [] = []"
| "b64encode [a] =
     [b64_char (drop_bit 2 a), b64_char (push_bit 4 (a AND 3)), CHR ''='', CHR ''='']"
| "b64encode [a, b] =
     [b64_char (drop_bit 2 a),
      b64_char (push_bit 4 (a AND 3) OR drop_bit 4 b),
      b64_char (push_bit 2 (b AND 15)),
      CHR ''='']"
| "b64encode (a # b # c # rest) =
     [b64_char (drop_bit 2 a),
      b64_char (push_bit 4 (a AND 3) OR drop_bit 4 b),
      b64_char (push_bit 2 (b AND 15) OR drop_bit 6 c),
      b64_char (c AND 63)] @ b64encode rest"

text \<open>
  The decoding table \<^verbatim>\<open>table_a2b_base64\<close>: the position of a character in the
  alphabet, and nothing for every other character.
\<close>

fun index_of :: "char \<Rightarrow> string \<Rightarrow> nat" where
  "index_of c [] = 0"
| "index_of c (x # xs) = (if x = c then 0 else Suc (index_of c xs))"

definition b64_index :: "char \<Rightarrow> byte option" where
  "b64_index c =
     (let i = index_of c b64_alphabet
      in if i < length b64_alphabet then Some (of_nat i) else None)"

text \<open>
  The loop of \<^verbatim>\<open>binascii.a2b_base64\<close> in its default, non-strict mode, which is how
  \<^verbatim>\<open>b64decode\<close> calls it (\<^verbatim>\<open>validate=False\<close>). The state is the position in the
  current group of four (\<open>quad_pos\<close>), the bits left over from the last character
  (\<open>leftchar\<close>, an unsigned char), the number of padding characters counted (\<open>pads\<close>)
  and the bytes written so far. A padding character that completes a group ends the
  decoding; characters outside the alphabet are skipped; input that ends inside a group
  raises \<^verbatim>\<open>binascii.Error\<close>.
\<close>

fun a2b_base64 :: "nat \<Rightarrow> byte \<Rightarrow> nat \<Rightarrow> bytes \<Rightarrow> string \<Rightarrow> exn + bytes" where
  "a2b_base64 quad_pos leftchar pads bin_data [] =
     (if quad_pos \<noteq> 0 then Inl BinasciiError else Inr bin_data)"
| "a2b_base64 quad_pos leftchar pads bin_data (c # cs) =
     (if c = CHR ''='' then
        (if 2 \<le> quad_pos \<and> 4 \<le> quad_pos + (pads + 1) then Inr bin_data
         else a2b_base64 quad_pos leftchar (if 2 \<le> quad_pos then pads + 1 else pads)
                bin_data cs)
      else
        (case b64_index c of
           None \<Rightarrow> a2b_base64 quad_pos leftchar pads bin_data cs
         | Some this_ch \<Rightarrow>
             (if quad_pos = 0 then a2b_base64 1 this_ch 0 bin_data cs
              else if quad_pos = 1 then
                a2b_base64 2 (this_ch AND 15) 0
                  (bin_data @ [push_bit 2 leftchar OR drop_bit 4 this_ch]) cs
              else if quad_pos = 2 then
                a2b_base64 3 (this_ch AND 3) 0
                  (bin_data @ [push_bit 4 leftchar OR drop_bit 2 this_ch]) cs
              else
                a2b_base64 0 0 0 (bin_data @ [push_bit 6 leftchar OR this_ch]) cs)))"

text \<open>
  \<^verbatim>\<open>b64decode\<close> of a \<^verbatim>\<open>str\<close>: the string is first encoded as ASCII, which raises
  ValueError on any character above 127.
\<close>

definition b64decode :: "string \<Rightarrow> exn + bytes" where
  "b64decode s =
     (if \<exists>c \<in> set s. 128 \<le> (of_char c :: nat) then Inl ValueError
      else a2b_base64 0 0 0 [] s)"

subsection \<open>\<^verbatim>\<open>str.split\<close> and \<^verbatim>\<open>str.strip\<close>\<close>

fun split :: "char \<Rightarrow> string \<Rightarrow> string list" where
  "split sep [] = [[]]"
| "split sep (c # cs) =
     (if c = sep then [] # split sep cs
      else (case split sep cs of
              [] \<Rightarrow> [[c]]
            | x # xs \<Rightarrow> (c # x) # xs))"

text \<open>The whitespace that \<^verbatim>\<open>str.strip()\<close> removes, for the code points below 256.\<close>

definition isspace :: "char \<Rightarrow> bool" where
  "isspace c =
     (let n = (of_char c :: nat)
      in (9 \<le> n \<and> n \<le> 13) \<or> (28 \<le> n \<and> n \<le> 32) \<or> n = 133 \<or> n = 160)"

definition strip :: "string \<Rightarrow> string" where
  "strip s = rev (dropWhile isspace (rev (dropWhile isspace s)))"

subsection \<open>The functions of \<^verbatim>\<open>image_io.py\<close>\<close>

text \<open>
  \<^verbatim>\<open>decode_image\<close>: a string with a comma is replaced by the second piece of its split
  at commas; the result is stripped and decoded. Every error of the decoder is turned into
  ValueError. The index 1 is in range whenever the string has a comma; the model keeps the
  IndexError branch of the indexing all the same.
\<close>

definition decode_image :: "string \<Rightarrow> exn + bytes" where
  "decode_image base64_string =
     (case (if CHR '','' \<in> set base64_string
            then (case split CHR '','' base64_string of
                    _ # piece # _ \<Rightarrow> Inr piece
                  | _ \<Rightarrow> Inl IndexError)
            else Inr base64_string) of
        Inl e \<Rightarrow> Inl e
      | Inr s \<Rightarrow>
          (case b64decode (strip s) of
             Inl e \<Rightarrow> Inl ValueError
           | Inr image_bytes \<Rightarrow> Inr image_bytes))"

definition encode_image_to_base64 :: "bytes \<Rightarrow> string \<Rightarrow> string" where
  "encode_image_to_base64 image_bytes format =
     (let base64_str = b64encode image_bytes;
          mime_type = ''image/'' @ lower format
      in ''data:'' @ mime_type @ '';base64,'' @ base64_str)"

text \<open>
  The imaging library (PIL with numpy) is outside the repository; it is a parameter:
  \<open>image_open\<close> stands for \<^verbatim>\<open>np.array(Image.open(io.BytesIO(data)).convert("RGB"))\<close>,
  of which the service reads only the shape, and \<open>png_save\<close> for writing a mask as a PNG
  file. Both can raise.
\<close>

record rgb_image =
  img_height :: nat
  img_width :: nat
  img_pixels :: bytes

record imaging =
  image_open :: "bytes \<Rightarrow> exn + rgb_image"
  png_save :: "mask \<Rightarrow> exn + bytes"

text \<open>
  \<^verbatim>\<open>encode_mask_to_base64\<close> on a two-dimensional \<^verbatim>\<open>uint8\<close> mask, the only shape the
  segmenter below returns: the conversions for other shapes and types do nothing.
\<close>

definition encode_mask_to_base64 :: "imaging \<Rightarrow> mask \<Rightarrow> exn + string" where
  "encode_mask_to_base64 io m =
     (case png_save io m of
        Inl e \<Rightarrow> Inl e
      | Inr mask_bytes \<Rightarrow> Inr (encode_image_to_base64 mask_bytes ''PNG''))"

section \<open>The segmenter (inference/segmenter.py)\<close>

text \<open>
  The SAM predictor is an external model. \<open>has_set_image\<close> is the test
  \<^verbatim>\<open>hasattr(self.predictor, 'set_image')\<close>; \<open>set_image\<close> and \<open>predict\<close> are the two calls,
  each of which can raise; \<open>predict\<close> returns the list of masks, each a matrix of truth
  values.
\<close>

record predictor =
  has_set_image :: bool
  set_image :: "rgb_image \<Rightarrow> exn option"
  predict :: "rgb_image \<Rightarrow> pyval list \<Rightarrow> exn + bool list list list"

record sam2_segmenter =
  seg_predictor :: "predictor option"

text \<open>
  \<^verbatim>\<open>x1, y1, x2, y2 = bbox\<close>: a list or a string of exactly four items unpacks, a
  sequence of another length raises ValueError, and a value that is no sequence raises
  TypeError.
\<close>

definition unpack4 :: "pyval \<Rightarrow> exn + pyval \<times> pyval \<times> pyval \<times> pyval" where
  "unpack4 v =
     (case v of
        PList xs \<Rightarrow>
          (case xs of
             [a, b, c, d] \<Rightarrow> Inr (a, b, c, d)
           | _ \<Rightarrow> Inl ValueError)
      | PStr s \<Rightarrow>
          (case s of
             [a, b, c, d] \<Rightarrow> Inr (PStr [a], PStr [b], PStr [c], PStr [d])
           | _ \<Rightarrow> Inl ValueError)
      | _ \<Rightarrow> Inl TypeError)"

text \<open>
  \<^verbatim>\<open>(x1 + x2) / 2\<close>. A value counts as an integer when it is an \<^verbatim>\<open>int\<close> or a
  \<^verbatim>\<open>bool\<close>. Two integers are added exactly and the true division of the sum by 2 raises
  OverflowError when the quotient is too large for a float; an integer added to a float is
  first converted to a float, which raises OverflowError when it is too large; two floats
  never raise. On any other pair of values the sum or the division raises TypeError. An
  integer or quotient is too large when it rounds to \<open>2 ^ 1024\<close> or beyond, that is from
  \<open>2 ^ 1024 - 2 ^ 970\<close> on.
\<close>

definition as_int :: "pyval \<Rightarrow> int option" where
  "as_int v =
     (case v of
        PInt i \<Rightarrow> Some i
      | PBool b \<Rightarrow> Some (if b then 1 else 0)
      | _ \<Rightarrow> None)"

definition is_float :: "pyval \<Rightarrow> bool" where
  "is_float v = (case v of PFloat _ \<Rightarrow> True | _ \<Rightarrow> False)"

definition float_overflow :: "real \<Rightarrow> bool" where
  "float_overflow r = (2 ^ 1024 - 2 ^ 970 \<le> \<bar>r\<bar>)"

definition half_sum :: "pyval \<Rightarrow> pyval \<Rightarrow> exn option" where
  "half_sum a b =
     (case (as_int a, as_int b) of
        (Some i, Some j) \<Rightarrow>
          if float_overflow (real_of_int (i + j) / 2) then Some OverflowError else None
      | (Some i, None) \<Rightarrow>
          if is_float b
          then (if float_overflow (real_of_int i) then Some OverflowError else None)
          else Some TypeError
      | (None, Some j) \<Rightarrow>
          if is_float a
          then (if float_overflow (real_of_int j) then Some OverflowError else None)
          else Some TypeError
      | (None, None) \<Rightarrow>
          if is_float a \<and> is_float b then None else Some TypeError)"

text \<open>
  \<^verbatim>\<open>box_center = [(x1 + x2) / 2, (y1 + y2) / 2]\<close>, evaluated left to right. The next
  line, \<^verbatim>\<open>np.array([[x1, y1, x2, y2]])\<close>, is reached with four numbers only and does not
  raise on them (numbers beyond the machine types give an array of objects).
\<close>

definition box_center :: "pyval \<Rightarrow> pyval \<Rightarrow> pyval \<Rightarrow> pyval \<Rightarrow> exn option" where
  "box_center x1 y1 x2 y2 =
     (case half_sum x1 x2 of
        Some e \<Rightarrow> Some e
      | None \<Rightarrow> half_sum y1 y2)"

definition zeros :: "nat \<Rightarrow> nat \<Rightarrow> mask" where
  "zeros h w = replicate h (replicate w 0)"

text \<open>\<^verbatim>\<open>mask.astype(np.uint8) * 255\<close>.\<close>

definition mask_binary :: "bool list list \<Rightarrow> mask" where
  "mask_binary m = map (map (\<lambda>b. (if b then 1 else 0) * 255)) m"

text \<open>The body of the \<^verbatim>\<open>try\<close> block of \<^verbatim>\<open>segment\<close>.\<close>

definition predict_mask :: "predictor \<Rightarrow> rgb_image \<Rightarrow> pyval list \<Rightarrow> exn + mask" where
  "predict_mask p image_rgb box_coords =
     (if has_set_image p then
        (case set_image p image_rgb of
           Some e \<Rightarrow> Inl e
         | None \<Rightarrow>
             (case predict p image_rgb box_coords of
                Inl e \<Rightarrow> Inl e
              | Inr masks \<Rightarrow>
                  (case masks of
                     [] \<Rightarrow> Inl IndexError
                   | m # _ \<Rightarrow> Inr (mask_binary m))))
      else Inl NotImplementedError)"

text \<open>
  \<^verbatim>\<open>SAM2Segmenter.segment\<close>. The check of the predictor, the loading of the image,
  the unpacking of the box and the centre of the box come before the \<^verbatim>\<open>try\<close>, so
  their errors leave the method;
  an error inside the \<^verbatim>\<open>try\<close> is answered with a mask of zeros of the image's size.
\<close>

definition segment :: "imaging \<Rightarrow> sam2_segmenter \<Rightarrow> bytes \<Rightarrow> pyval \<Rightarrow> exn + mask" where
  "segment io self image_data bbox =
     (case seg_predictor self of
        None \<Rightarrow> Inl RuntimeError
      | Some p \<Rightarrow>
          (case image_open io image_data of
             Inl e \<Rightarrow> Inl e
           | Inr image_rgb \<Rightarrow>
               (let h = img_height image_rgb; w = img_width image_rgb
                in case unpack4 bbox of
                     Inl e \<Rightarrow> Inl e
                   | Inr (x1, y1, x2, y2) \<Rightarrow>
                       (case box_center x1 y1 x2 y2 of
                          Some e \<Rightarrow> Inl e
                        | None \<Rightarrow>
                            (case predict_mask p image_rgb [x1, y1, x2, y2] of
                               Inr mask_bin \<Rightarrow> Inr mask_bin
                             | Inl e \<Rightarrow> Inr (zeros h w))))))"

definition segmenter_is_ready :: "sam2_segmenter \<Rightarrow> bool" where
  "segmenter_is_ready self = (seg_predictor self \<noteq> None)"

section \<open>The detector (inference/detector.py)\<close>

text \<open>
  A loaded YOLO model is external. \<open>inner_has_names\<close> is
  \<^verbatim>\<open>hasattr(self.model.model, 'names')\<close>; \<open>names\<close> is the attribute \<^verbatim>\<open>self.model.names\<close>
  when the model has it; \<open>infer\<close> is the call of the model on an image with the two
  thresholds and the device. A result carries its boxes or \<^verbatim>\<open>None\<close>; a box has four
  corner coordinates, a confidence and a class number, all floats.
\<close>

record raw_box =
  box_x1 :: real
  box_y1 :: real
  box_x2 :: real
  box_y2 :: real
  box_conf :: real
  box_cls :: real

record yolo_model =
  inner_has_names :: bool
  names :: "(int \<rightharpoonup> string) option"
  infer :: "rgb_image \<Rightarrow> real \<Rightarrow> real \<Rightarrow> string \<Rightarrow> exn + raw_box list option list"

record yolov10_detector =
  device :: string
  model :: "yolo_model option"
  model_name :: "string option"
  conf_threshold :: real
  iou_threshold :: real

text \<open>
  What the loading code finds on the machine: whether CUDA is there, which files exist,
  whether \<^verbatim>\<open>ultralytics\<close> and its class \<^verbatim>\<open>YOLOv10\<close> can be imported, and what the
  constructors and \<^verbatim>\<open>torch.load\<close> do on a path.
\<close>

record loader_env =
  cuda_available :: bool
  path_exists :: "string \<Rightarrow> bool"
  ultralytics_installed :: bool
  yolov10_importable :: bool
  YOLO :: "string \<Rightarrow> exn + yolo_model"
  YOLOv10 :: "string \<Rightarrow> exn + yolo_model"
  torch_load :: "string \<Rightarrow> exn option"

definition detect_device :: "loader_env \<Rightarrow> string" where
  "detect_device env = (if cuda_available env then ''cuda'' else ''cpu'')"

text \<open>
  \<^verbatim>\<open>_load_yolov8_fallback\<close>: a failed import and a failed load both raise RuntimeError.
\<close>

definition load_yolov8_fallback :: "loader_env \<Rightarrow> yolov10_detector \<Rightarrow> exn + yolov10_detector" where
  "load_yolov8_fallback env self =
     (if \<not> ultralytics_installed env then Inl RuntimeError
      else (case YOLO env ''yolov8n.pt'' of
              Inl e \<Rightarrow> Inl RuntimeError
            | Inr m \<Rightarrow> Inr (self\<lparr>model := Some m, model_name := Some ''yolov8n''\<rparr>)))"

text \<open>
  The first \<^verbatim>\<open>try\<close> of \<^verbatim>\<open>_load_yolov10\<close> (the import of \<^verbatim>\<open>ultralytics\<close> and the two
  attempts to build the model) ends in one of three ways: the method returns with the
  model loaded; control goes on to the direct torch load (after a caught ImportError, or
  when the loaded model has no names); or another exception leaves the block.
\<close>

datatype attempt = Returned yolov10_detector | GoesOn yolov10_detector | Raised exn

definition load_with_ultralytics :: "loader_env \<Rightarrow> string \<Rightarrow> yolov10_detector \<Rightarrow> attempt" where
  "load_with_ultralytics env model_path self =
     (if \<not> ultralytics_installed env then GoesOn self
      else (case YOLO env model_path of
              Inr m \<Rightarrow>
                (if inner_has_names m
                 then Returned (self\<lparr>model := Some m, model_name := Some ''yolov10e''\<rparr>)
                 else GoesOn (self\<lparr>model := Some m\<rparr>))
            | Inl e \<Rightarrow>
                (if \<not> yolov10_importable env then GoesOn self
                 else (case YOLOv10 env model_path of
                         Inr m \<Rightarrow> Returned (self\<lparr>model := Some m, model_name := Some ''yolov10e''\<rparr>)
                       | Inl e' \<Rightarrow> if e' = ImportError then GoesOn self else Raised e'))))"

text \<open>
  \<^verbatim>\<open>_load_yolov10\<close>. The direct torch load ends in the fallback whether it works or
  not; when the fallback raises inside that \<^verbatim>\<open>try\<close>, its handler calls the fallback
  again, and the outermost handler calls it once more, so the last failure leaves the
  method.
\<close>

definition load_yolov10 :: "loader_env \<Rightarrow> string \<Rightarrow> yolov10_detector \<Rightarrow> exn + yolov10_detector" where
  "load_yolov10 env model_path self =
     (case load_with_ultralytics env model_path self of
        Returned s \<Rightarrow> Inr s
      | Raised e \<Rightarrow> load_yolov8_fallback env self
      | GoesOn s \<Rightarrow>
          (let direct = (case torch_load env model_path of
                           Some e \<Rightarrow> Inl e
                         | None \<Rightarrow> load_yolov8_fallback env s);
               handled = (case direct of
                            Inr s' \<Rightarrow> Inr s'
                          | Inl e \<Rightarrow> load_yolov8_fallback env s)
           in case handled of
                Inr s' \<Rightarrow> Inr s'
              | Inl e \<Rightarrow> load_yolov8_fallback env s))"

text \<open>\<^verbatim>\<open>YOLOv10Detector.__init__\<close>, with the path of the model file resolved.\<close>

definition init_detector :: "loader_env \<Rightarrow> string \<Rightarrow> exn + yolov10_detector" where
  "init_detector env model_path =
     (let self = \<lparr> device = detect_device env, model = None, model_name = None,
                   conf_threshold = 0.25, iou_threshold = 0.45 \<rparr>
      in if path_exists env model_path then load_yolov10 env model_path self
         else load_yolov8_fallback env self)"

definition is_ready :: "yolov10_detector \<Rightarrow> bool" where
  "is_ready self = (model self \<noteq> None)"

text \<open>\<^verbatim>\<open>int(x)\<close> on a float truncates towards zero; \<^verbatim>\<open>str(n)\<close> writes an integer in decimal.\<close>

definition py_int :: "real \<Rightarrow> int" where
  "py_int x = (if 0 \<le> x then \<lfloor>x\<rfloor> else \<lceil>x\<rceil>)"

function str_nat :: "nat \<Rightarrow> string" where
  "str_nat n =
     (if n < 10 then [char_of (48 + n)]
      else str_nat (n div 10) @ [char_of (48 + n mod 10)])"
  by pat_completeness auto
termination
  by (relation "measure id") auto

definition str_int :: "int \<Rightarrow> string" where
  "str_int i = (if i < 0 then CHR ''-'' # str_nat (nat (- i)) else str_nat (nat i))"

text \<open>One turn of the loop over the boxes: the detection dict of a box.\<close>

definition box_detection :: "yolo_model \<Rightarrow> raw_box \<Rightarrow> exn + detection" where
  "box_detection m b =
     (let class_id = py_int (box_cls b)
      in case (case names m of
                 Some ns \<Rightarrow> (case ns class_id of None \<Rightarrow> Inl KeyError | Some n \<Rightarrow> Inr n)
               | None \<Rightarrow> Inr (''class_'' @ str_int class_id)) of
           Inl e \<Rightarrow> Inl e
         | Inr class_name \<Rightarrow>
             Inr [''bbox'' \<mapsto> PList [PFloat (box_x1 b), PFloat (box_y1 b),
                                      PFloat (box_x2 b), PFloat (box_y2 b)],
                  ''confidence'' \<mapsto> PFloat (box_conf b),
                  ''class_id'' \<mapsto> PInt class_id,
                  ''class_name'' \<mapsto> PStr class_name])"

fun parse_boxes :: "yolo_model \<Rightarrow> raw_box list \<Rightarrow> exn + detection list" where
  "parse_boxes m [] = Inr []"
| "parse_boxes m (b # bs) =
     (case box_detection m b of
        Inl e \<Rightarrow> Inl e
      | Inr d \<Rightarrow> (case parse_boxes m bs of Inl e \<Rightarrow> Inl e | Inr ds \<Rightarrow> Inr (d # ds)))"

text \<open>\<^verbatim>\<open>YOLOv10Detector.detect\<close>.\<close>

definition detect :: "imaging \<Rightarrow> yolov10_detector \<Rightarrow> bytes \<Rightarrow> exn + detection list" where
  "detect io self image_data =
     (case model self of
        None \<Rightarrow> Inl RuntimeError
      | Some m \<Rightarrow>
          (case image_open io image_data of
             Inl e \<Rightarrow> Inl e
           | Inr image_rgb \<Rightarrow>
               (case infer m image_rgb (conf_threshold self) (iou_threshold self) (device self) of
                  Inl e \<Rightarrow> Inl e
                | Inr results \<Rightarrow>
                    (case results of
                       [] \<Rightarrow> Inr []
                     | r # _ \<Rightarrow> (case r of None \<Rightarrow> Inr [] | Some boxes \<Rightarrow> parse_boxes m boxes)))))"

section \<open>The request handler (main.py)\<close>

text \<open>
  The startup code of \<^verbatim>\<open>lifespan\<close>: an exception of the detector's constructor is caught
  and leaves the global \<^verbatim>\<open>detector\<close> at \<^verbatim>\<open>None\<close>.
\<close>

definition lifespan_detector :: "loader_env \<Rightarrow> string \<Rightarrow> yolov10_detector option" where
  "lifespan_detector env model_path =
     (case init_detector env model_path of
        Inr d \<Rightarrow> Some d
      | Inl e \<Rightarrow> None)"

text \<open>
  The liveness summary of \<^verbatim>\<open>GET /\<close>: a model is reported ready when its global is
  not \<^verbatim>\<open>None\<close>.
\<close>

record liveness =
  service :: string
  version :: string
  status :: string
  detector_ready :: bool
  segmenter_ready :: bool

definition root :: "yolov10_detector option \<Rightarrow> sam2_segmenter option \<Rightarrow> liveness" where
  "root detector segmenter =
     \<lparr> service = ''EcoVision AI Service'',
       version = ''2.0.0'',
       status = ''online'',
       detector_ready = (detector \<noteq> None),
       segmenter_ready = (segmenter \<noteq> None) \<rparr>"

text \<open>
  The response dict. The key \<^verbatim>\<open>masks\<close> is optional: \<open>None\<close> is a response without
  the key. An entry of the list of masks is a data URL or \<^verbatim>\<open>None\<close>.
\<close>

record response =
  success :: bool
  detections :: "mapped_detection list"
  count :: nat
  masks :: "string option list option"

text \<open>The calls to the two models that a request makes, in order.\<close>

datatype model_call = DetectCall bytes | SegmentCall bytes pyval

text \<open>
  The first part of \<^verbatim>\<open>detect_waste\<close>, after the check of the detector: the bytes of
  the uploaded file when there is one (an \<^verbatim>\<open>UploadFile\<close> object is always true), else
  the decoded \<^verbatim>\<open>image_base64\<close> when it is a non-empty string (\<^verbatim>\<open>None\<close> and the
  empty string are both false), else status 400.
\<close>

definition get_image_data :: "bytes option \<Rightarrow> string option \<Rightarrow> exn + bytes" where
  "get_image_data image_file image_base64 =
     (case image_file of
        Some content \<Rightarrow> Inr content
      | None \<Rightarrow>
          (case image_base64 of
             Some s \<Rightarrow>
               (if s \<noteq> [] then
                  (case decode_image s of
                     Inl e \<Rightarrow> Inl (HTTPException 400)
                   | Inr image_data \<Rightarrow> Inr image_data)
                else Inl (HTTPException 400))
           | None \<Rightarrow> Inl (HTTPException 400)))"

text \<open>The loop that maps the detections; an exception of the mapper ends it.\<close>

fun map_detections :: "detection list \<Rightarrow> exn + mapped_detection list" where
  "map_detections [] = Inr []"
| "map_detections (det # dets) =
     (case map_detection det of
        Inl e \<Rightarrow> Inl e
      | Inr mapped \<Rightarrow>
          (case map_detections dets of
             Inl e \<Rightarrow> Inl e
           | Inr rest \<Rightarrow> Inr (mapped # rest)))"

text \<open>
  One turn of the segmentation loop, the body of its \<^verbatim>\<open>try\<close>: \<^verbatim>\<open>det["bbox"]\<close> raises
  KeyError when the key is absent, before the segmenter is called. Any exception gives the
  entry \<^verbatim>\<open>None\<close>.
\<close>

definition segment_detection ::
  "imaging \<Rightarrow> sam2_segmenter \<Rightarrow> bytes \<Rightarrow> detection \<Rightarrow> string option \<times> model_call list" where
  "segment_detection io segmenter image_data det =
     (case det ''bbox'' of
        None \<Rightarrow> (None, [])
      | Some bbox \<Rightarrow>
          (case segment io segmenter image_data bbox of
             Inl e \<Rightarrow> (None, [SegmentCall image_data bbox])
           | Inr m \<Rightarrow>
               (case encode_mask_to_base64 io m of
                  Inl e \<Rightarrow> (None, [SegmentCall image_data bbox])
                | Inr mask_b64 \<Rightarrow> (Some mask_b64, [SegmentCall image_data bbox]))))"

fun segment_detections ::
  "imaging \<Rightarrow> sam2_segmenter \<Rightarrow> bytes \<Rightarrow> detection list \<Rightarrow> string option list \<times> model_call list" where
  "segment_detections io segmenter image_data [] = ([], [])"
| "segment_detections io segmenter image_data (det # dets) =
     (let (entry, calls) = segment_detection io segmenter image_data det;
          (entries, more) = segment_detections io segmenter image_data dets
      in (entry # entries, calls @ more))"

text \<open>
  The \<^verbatim>\<open>try\<close> block of \<^verbatim>\<open>detect_waste\<close>: detection, the early return on no detection,
  mapping, segmentation and the response. Its handler turns every exception into status
  500. The two branches \<^verbatim>\<open>segmentation and segmenter\<close> and
  \<^verbatim>\<open>segmentation and not segmenter\<close> are the two cases of the segmenter under
  \<open>segmentation\<close>; a segmenter object is always true.
\<close>

definition run_detection ::
  "imaging \<Rightarrow> yolov10_detector \<Rightarrow> sam2_segmenter option \<Rightarrow> bytes \<Rightarrow> bool
     \<Rightarrow> (exn + response) \<times> model_call list" where
  "run_detection io detector segmenter image_data segmentation =
     (case detect io detector image_data of
        Inl e \<Rightarrow> (Inl (HTTPException 500), [DetectCall image_data])
      | Inr dets \<Rightarrow>
          (if dets = [] then
             (Inr \<lparr> success = True, detections = [], count = 0, masks = None \<rparr>,
              [DetectCall image_data])
           else
             (case map_detections dets of
                Inl e \<Rightarrow> (Inl (HTTPException 500), [DetectCall image_data])
              | Inr mapped_detections \<Rightarrow>
                  (let (masks_base64, calls) =
                         (if segmentation then
                            (case segmenter of
                               Some seg \<Rightarrow> segment_detections io seg image_data dets
                             | None \<Rightarrow> (replicate (length dets) None, []))
                          else ([], []))
                   in (Inr \<lparr> success = True,
                             detections = mapped_detections,
                             count = length mapped_detections,
                             masks = (if segmentation then Some masks_base64 else None) \<rparr>,
                       DetectCall image_data # calls)))))"

text \<open>
  \<^verbatim>\<open>detect_waste\<close>, the handler of \<^verbatim>\<open>POST /detect\<close>. The result is the response or the
  HTTP error, with the calls made to the models.
\<close>

definition detect_waste ::
  "imaging \<Rightarrow> yolov10_detector option \<Rightarrow> sam2_segmenter option
     \<Rightarrow> bytes option \<Rightarrow> string option \<Rightarrow> bool \<Rightarrow> (exn + response) \<times> model_call list" where
  "detect_waste io detector segmenter image_file image_base64 segmentation =
     (case detector of
        None \<Rightarrow> (Inl (HTTPException 503), [])
      | Some det \<Rightarrow>
          (case get_image_data image_file image_base64 of
             Inl e \<Rightarrow> (Inl e, [])
           | Inr image_data \<Rightarrow>
               (if image_data = [] then (Inl (HTTPException 400), [])
                else run_detection io det segmenter image_data segmentation)))"

section \<open>Concrete inputs\<close>

text \<open>
  Small concrete objects on which the definitions above are evaluated: an imaging library
  that reads every file as a 2 by 3 image, a model that finds nothing, a model that finds
  two boxes, a predictor that works and one whose \<open>predict\<close> raises.
\<close>

definition sample_io :: imaging where
  "sample_io =
     \<lparr> image_open = (\<lambda>data. Inr \<lparr> img_height = 2, img_width = 3, img_pixels = data \<rparr>),
       png_save = (\<lambda>m. Inr (concat m)) \<rparr>"

definition sample_model :: "raw_box list \<Rightarrow> yolo_model" where
  "sample_model boxes =
     \<lparr> inner_has_names = True,
       names = Some [39 \<mapsto> ''bottle'', 41 \<mapsto> ''cup''],
       infer = (\<lambda>img conf iou dev. Inr [Some boxes]) \<rparr>"

definition sample_detector :: "raw_box list \<Rightarrow> yolov10_detector" where
  "sample_detector boxes =
     \<lparr> device = ''cpu'', model = Some (sample_model boxes), model_name = Some ''yolov8n'',
       conf_threshold = 0.25, iou_threshold = 0.45 \<rparr>"

definition sample_boxes :: "raw_box list" where
  "sample_boxes =
     [\<lparr> box_x1 = 0, box_y1 = 0, box_x2 = 1, box_y2 = 1, box_conf = 0.9, box_cls = 39 \<rparr>,
      \<lparr> box_x1 = 1, box_y1 = 0, box_x2 = 3, box_y2 = 2, box_conf = 0.5, box_cls = 41 \<rparr>]"

definition good_predictor :: predictor where
  "good_predictor =
     \<lparr> has_set_image = True,
       set_image = (\<lambda>img. None),
       predict = (\<lambda>img box. Inr [[[True, False, False], [False, True, True]]]) \<rparr>"

definition failing_predictor :: predictor where
  "failing_predictor =
     \<lparr> has_set_image = True,
       set_image = (\<lambda>img. None),
       predict = (\<lambda>img box. Inl RuntimeError) \<rparr>"

text \<open>
  A predictor that gives a mask without rows on every box but one, and an imaging library
  that cannot write an image without pixels: with them the segmentation of one detection
  succeeds and that of another fails in the encoding of its mask.
\<close>

definition picky_predictor :: predictor where
  "picky_predictor =
     \<lparr> has_set_image = True,
       set_image = (\<lambda>img. None),
       predict = (\<lambda>img box.
          if box = [PFloat 0, PFloat 0, PFloat 1, PFloat 1]
          then Inr [[[True, False, False], [False, True, True]]]
          else Inr [[]]) \<rparr>"

definition strict_io :: imaging where
  "strict_io =
     \<lparr> image_open = (\<lambda>data. Inr \<lparr> img_height = 2, img_width = 3, img_pixels = data \<rparr>),
       png_save = (\<lambda>m. if concat m = [] then Inl ValueError else Inr (concat m)) \<rparr>"

text \<open>A machine on which no model can be loaded: no model file, no \<^verbatim>\<open>ultralytics\<close>.\<close>

definition bare_env :: loader_env where
  "bare_env =
     \<lparr> cuda_available = False,
       path_exists = (\<lambda>p. False),
       ultralytics_installed = False,
       yolov10_importable = False,
       YOLO = (\<lambda>p. Inl ImportError),
       YOLOv10 = (\<lambda>p. Inl ImportError),
       torch_load = (\<lambda>p. Some OSError) \<rparr>"

text \<open>
  A machine with a model file that \<^verbatim>\<open>ultralytics\<close> cannot read and no way to get the
  fallback weights.
\<close>

definition broken_env :: loader_env where
  "broken_env =
     \<lparr> cuda_available = False,
       path_exists = (\<lambda>p. True),
       ultralytics_installed = True,
       yolov10_importable = False,
       YOLO = (\<lambda>p. Inl OSError),
       YOLOv10 = (\<lambda>p. Inl ImportError),
       torch_load = (\<lambda>p. Some OSError) \<rparr>"

section \<open>Properties of the class mapper\<close>

text \<open>\<open>py_in\<close> is the substring relation: \<open>sub\<close> occurs in \<open>s\<close> as a block.\<close>

lemma startswith_iff: "startswith s p \<longleftrightarrow> (\<exists>q. s = p @ q)"
  by (induction s p rule: startswith.induct) auto

lemma py_in_iff: "py_in sub s \<longleftrightarrow> (\<exists>p q. s = p @ sub @ q)"
proof (induction s)
  case Nil
  then show ?case by auto
next
  case (Cons c cs)
  show ?case
  proof
    assume "py_in sub (c # cs)"
    then consider "startswith (c # cs) sub" | "py_in sub cs" by auto
    then show "\<exists>p q. c # cs = p @ sub @ q"
    proof cases
      case 1
      then obtain q where "c # cs = sub @ q" by (auto simp: startswith_iff)
      then have "c # cs = [] @ sub @ q" by simp
      then show ?thesis by blast
    next
      case 2
      then obtain p q where "cs = p @ sub @ q" using Cons.IH by auto
      then have "c # cs = (c # p) @ sub @ q" by simp
      then show ?thesis by blast
    qed
  next
    assume "\<exists>p q. c # cs = p @ sub @ q"
    then obtain p q where pq: "c # cs = p @ sub @ q" by blast
    show "py_in sub (c # cs)"
    proof (cases p)
      case Nil
      with pq have "startswith (c # cs) sub" by (auto simp: startswith_iff)
      then show ?thesis by simp
    next
      case (Cons a p')
      with pq have "cs = p' @ sub @ q" by simp
      then have "py_in sub cs" using Cons.IH by blast
      then show ?thesis by simp
    qed
  qed
qed

lemma class_mapping_values:
  "(k, v) \<in> set class_mapping \<Longrightarrow>
     v \<in> {''plastic_bottle'', ''plastic_wrapper'', ''paper_cup'', ''food_waste'',
          ''glass_bottle'', ''metal_can'', ''cardboard_box'', ''cloth''}"
  unfolding class_mapping_def by auto

lemma class_mapping_nonempty: "(k, v) \<in> set class_mapping \<Longrightarrow> v \<noteq> []"
  using class_mapping_values by fastforce

lemma distinct_keys: "distinct (map fst class_mapping)"
  by (simp add: class_mapping_def)

lemma partial_match_Some: "partial_match tbl r = Some v \<Longrightarrow> \<exists>k. (k, v) \<in> set tbl"
  by (induction tbl r rule: partial_match.induct) (auto split: if_splits)

lemma partial_match_None:
  "partial_match tbl r = None \<longleftrightarrow> (\<forall>(k, v) \<in> set tbl. \<not> py_in k r \<and> \<not> py_in r k)"
  by (induction tbl r rule: partial_match.induct) (auto split: if_splits)

lemma partial_match_first:
  "i < length tbl \<Longrightarrow> py_in (fst (tbl ! i)) r \<or> py_in r (fst (tbl ! i)) \<Longrightarrow>
   \<forall>j<i. \<not> (py_in (fst (tbl ! j)) r \<or> py_in r (fst (tbl ! j))) \<Longrightarrow>
   partial_match tbl r = Some (snd (tbl ! i))"
proof (induction tbl r arbitrary: i rule: partial_match.induct)
  case (1 raw_class)
  then show ?case by simp
next
  case (2 key val rest raw_class)
  show ?case
  proof (cases i)
    case 0
    with 2 show ?thesis by simp
  next
    case (Suc n)
    with 2(4) have nohead: "\<not> (py_in key raw_class \<or> py_in raw_class key)" by fastforce
    have "partial_match rest raw_class = Some (snd (rest ! n))"
    proof (rule 2(1))
      show "\<not> (py_in key raw_class \<or> py_in raw_class key)" by (rule nohead)
      show "n < length rest" using 2(2) Suc by simp
      show "py_in (fst (rest ! n)) raw_class \<or> py_in raw_class (fst (rest ! n))"
        using 2(3) Suc by simp
      show "\<forall>j<n. \<not> (py_in (fst (rest ! j)) raw_class \<or> py_in raw_class (fst (rest ! j)))"
        using 2(4) Suc by fastforce
    qed
    with nohead Suc show ?thesis by simp
  qed
qed

lemma waste_class_of_exact:
  assumes "(k, v) \<in> set class_mapping"
  shows "waste_class_of k = v"
proof -
  have "map_of class_mapping k = Some v"
    using assms distinct_keys by simp
  moreover have "v \<noteq> []" using assms by (rule class_mapping_nonempty)
  ultimately show ?thesis by (simp add: waste_class_of_def not_waste_class_def)
qed

lemma waste_class_of_miss:
  assumes "raw \<notin> fst ` set class_mapping"
  shows "waste_class_of raw =
           (case partial_match class_mapping raw of Some v \<Rightarrow> v | None \<Rightarrow> ''plastic_bottle'')"
proof -
  have m: "map_of class_mapping raw = None"
    using assms by (simp add: map_of_eq_None_iff)
  show ?thesis
  proof (cases "partial_match class_mapping raw")
    case None
    with m show ?thesis by (simp add: waste_class_of_def not_waste_class_def)
  next
    case (Some v)
    then obtain k where "(k, v) \<in> set class_mapping" using partial_match_Some by blast
    then have "v \<noteq> []" by (rule class_mapping_nonempty)
    with m Some show ?thesis by (simp add: waste_class_of_def not_waste_class_def)
  qed
qed

lemma waste_class_of_category:
  "waste_class_of raw \<in> {''plastic_bottle'', ''plastic_wrapper'', ''paper_cup'', ''food_waste'',
          ''glass_bottle'', ''metal_can'', ''cardboard_box'', ''cloth''}"
proof (cases "raw \<in> fst ` set class_mapping")
  case True
  then obtain v where kv: "(raw, v) \<in> set class_mapping" by auto
  then have "waste_class_of raw = v" by (rule waste_class_of_exact)
  with class_mapping_values [OF kv] show ?thesis by simp
next
  case False
  note miss = waste_class_of_miss [OF False]
  show ?thesis
  proof (cases "partial_match class_mapping raw")
    case None
    with miss show ?thesis by simp
  next
    case (Some v)
    then obtain k where kv: "(k, v) \<in> set class_mapping" using partial_match_Some by blast
    with miss Some class_mapping_values [OF kv] show ?thesis by simp
  qed
qed

lemma map_detection_str:
  "d ''class_name'' = Some (PStr s) \<Longrightarrow>
   \<exists>m. map_detection d = Inr m \<and> md_class m = waste_class_of (lower s)"
  by (simp add: map_detection_def raw_class_of_def dict_get_def Let_def)

lemma map_detection_absent:
  "d ''class_name'' = None \<Longrightarrow>
   \<exists>m. map_detection d = Inr m \<and> md_class m = waste_class_of []"
  by (simp add: map_detection_def raw_class_of_def dict_get_def Let_def lower_def)

lemma waste_class_of_empty: "waste_class_of [] = ''plastic_bottle''"
  by (simp add: waste_class_of_def class_mapping_def not_waste_class_def)

text \<open>
  Claim C3. For every detection whose \<^verbatim>\<open>class_name\<close> is a string, \<open>map_detection\<close>
  does not raise: it returns a mapped detection, and the \<^verbatim>\<open>class\<close> field of the result is
  one of the eight waste categories. When the lowered label (the string the source compares,
  \<^verbatim>\<open>class_name.lower()\<close>) equals no key of the synonym table, contains no key and is
  contained in no key, the category is \<^verbatim>\<open>plastic_bottle\<close>.
\<close>

theorem map_detection_total:
  assumes "d ''class_name'' = Some (PStr label)"
  shows "\<exists>m. map_detection d = Inr m \<and>
           md_class m \<in> {''plastic_bottle'', ''plastic_wrapper'', ''paper_cup'', ''food_waste'',
                         ''glass_bottle'', ''metal_can'', ''cardboard_box'', ''cloth''} \<and>
           ((\<forall>(k, v) \<in> set class_mapping.
                lower label \<noteq> k \<and> \<not> py_in k (lower label) \<and> \<not> py_in (lower label) k)
             \<longrightarrow> md_class m = ''plastic_bottle'')"
proof -
  from map_detection_str [of d label] assms
  obtain m where m: "map_detection d = Inr m" "md_class m = waste_class_of (lower label)"
    by blast
  have cat: "md_class m \<in> {''plastic_bottle'', ''plastic_wrapper'', ''paper_cup'', ''food_waste'',
                         ''glass_bottle'', ''metal_can'', ''cardboard_box'', ''cloth''}"
    using m(2) waste_class_of_category [of "lower label"] by simp
  have dflt: "md_class m = ''plastic_bottle''"
    if miss: "\<forall>(k, v) \<in> set class_mapping.
                lower label \<noteq> k \<and> \<not> py_in k (lower label) \<and> \<not> py_in (lower label) k"
  proof -
    from miss have "lower label \<notin> fst ` set class_mapping" by fastforce
    moreover from miss have "partial_match class_mapping (lower label) = None"
      unfolding partial_match_None by fastforce
    ultimately show ?thesis using m(2) by (simp add: waste_class_of_miss)
  qed
  from m(1) cat dflt show ?thesis by blast
qed

theorem map_detection_total_witness:
  "\<exists>m. map_detection [''class_name'' \<mapsto> PStr ''Spaceship''] = Inr m \<and>
       md_class m = ''plastic_bottle''"
proof -
  have l: "lower ''Spaceship'' = ''spaceship''" by code_simp
  have miss: "\<forall>(k, v) \<in> set class_mapping.
      lower ''Spaceship'' \<noteq> k \<and> \<not> py_in k (lower ''Spaceship'') \<and> \<not> py_in (lower ''Spaceship'') k"
    unfolding l by (simp add: class_mapping_def)
  have "[''class_name'' \<mapsto> PStr ''Spaceship''] ''class_name'' = Some (PStr ''Spaceship'')"
    by simp
  from map_detection_total [of "[''class_name'' \<mapsto> PStr ''Spaceship'']" "''Spaceship''"] this miss
  show ?thesis by blast
qed

text \<open>
  Claim C4. A detection without the key \<^verbatim>\<open>class_name\<close>, or whose \<^verbatim>\<open>class_name\<close> is the
  empty string, is mapped to the category \<^verbatim>\<open>plastic_bottle\<close>.
\<close>

theorem map_detection_empty_label:
  assumes "d ''class_name'' = None \<or> d ''class_name'' = Some (PStr [])"
  shows "\<exists>m. map_detection d = Inr m \<and> md_class m = ''plastic_bottle''"
  using assms
proof (elim disjE)
  assume "d ''class_name'' = None"
  with map_detection_absent [of d] show ?thesis by (simp add: waste_class_of_empty)
next
  assume "d ''class_name'' = Some (PStr [])"
  with map_detection_str [of d "[]"] show ?thesis
    by (simp add: waste_class_of_empty lower_def)
qed

theorem map_detection_empty_label_witness:
  "(\<exists>m. map_detection Map.empty = Inr m \<and> md_class m = ''plastic_bottle'') \<and>
   (\<exists>m. map_detection [''class_name'' \<mapsto> PStr [], ''class_id'' \<mapsto> PInt 3] = Inr m \<and>
        md_class m = ''plastic_bottle'')"
  using map_detection_empty_label [of Map.empty]
        map_detection_empty_label [of "[''class_name'' \<mapsto> PStr [], ''class_id'' \<mapsto> PInt 3]"]
  by simp

text \<open>
  Claim C5. The mapping is a function of the label (so it is deterministic), and it follows
  the two steps of the specification on the lowered label. Exact match: when the lowered
  label is a key \<open>k\<close> of the synonym table with category \<open>v\<close>, the result is \<open>v\<close>. On a
  miss: when the lowered label is no key and \<open>i\<close> is the first position of the table, in the
  order of its definition, whose key is contained in the lowered label or contains it, the
  result is the category at position \<open>i\<close>.
\<close>

theorem map_detection_algorithm:
  "(d ''class_name'' = Some (PStr label) \<and> (k, v) \<in> set class_mapping \<and> lower label = k
      \<longrightarrow> (\<exists>m. map_detection d = Inr m \<and> md_class m = v)) \<and>
   (d' ''class_name'' = Some (PStr label') \<and> lower label' \<notin> fst ` set class_mapping \<and>
    i < length class_mapping \<and>
    (py_in (fst (class_mapping ! i)) (lower label') \<or> py_in (lower label') (fst (class_mapping ! i))) \<and>
    (\<forall>j<i. \<not> (py_in (fst (class_mapping ! j)) (lower label') \<or>
                py_in (lower label') (fst (class_mapping ! j))))
      \<longrightarrow> (\<exists>m. map_detection d' = Inr m \<and> md_class m = snd (class_mapping ! i)))"
proof (intro conjI impI)
  assume "d ''class_name'' = Some (PStr label) \<and> (k, v) \<in> set class_mapping \<and> lower label = k"
  then show "\<exists>m. map_detection d = Inr m \<and> md_class m = v"
    using map_detection_str [of d label] waste_class_of_exact [of k v] by auto
next
  assume a: "d' ''class_name'' = Some (PStr label') \<and> lower label' \<notin> fst ` set class_mapping \<and>
    i < length class_mapping \<and>
    (py_in (fst (class_mapping ! i)) (lower label') \<or> py_in (lower label') (fst (class_mapping ! i))) \<and>
    (\<forall>j<i. \<not> (py_in (fst (class_mapping ! j)) (lower label') \<or>
                py_in (lower label') (fst (class_mapping ! j))))"
  then have "partial_match class_mapping (lower label') = Some (snd (class_mapping ! i))"
    by (intro partial_match_first) blast+
  with a have "waste_class_of (lower label') = snd (class_mapping ! i)"
    by (simp add: waste_class_of_miss)
  with a show "\<exists>m. map_detection d' = Inr m \<and> md_class m = snd (class_mapping ! i)"
    using map_detection_str [of d' label'] by auto
qed

theorem map_detection_algorithm_witness:
  "(\<exists>m. map_detection [''class_name'' \<mapsto> PStr ''CUP''] = Inr m \<and> md_class m = ''paper_cup'') \<and>
   (\<exists>m. map_detection [''class_name'' \<mapsto> PStr ''Wrappers''] = Inr m \<and>
        md_class m = ''plastic_wrapper'')"
proof -
  have l1: "lower ''CUP'' = ''cup''" by code_simp
  have l2: "lower ''Wrappers'' = ''wrappers''" by code_simp
  have four: "\<And>P. (\<forall>j<4::nat. P j) = (P 0 \<and> P 1 \<and> P 2 \<and> P 3)"
    by (auto simp: numeral_eq_Suc less_Suc_eq)
  have e: "(''cup'', ''paper_cup'') \<in> set class_mapping" by (simp add: class_mapping_def)
  have n: "lower ''Wrappers'' \<notin> fst ` set class_mapping"
    unfolding l2 by (simp add: class_mapping_def)
  have len: "(4::nat) < length class_mapping" by (simp add: class_mapping_def)
  have hit: "py_in (fst (class_mapping ! 4)) (lower ''Wrappers'')"
    unfolding l2 by (simp add: class_mapping_def)
  have before: "\<forall>j<4. \<not> (py_in (fst (class_mapping ! j)) (lower ''Wrappers'') \<or>
                py_in (lower ''Wrappers'') (fst (class_mapping ! j)))"
    unfolding l2 four by (simp add: class_mapping_def)
  have v: "snd (class_mapping ! 4) = ''plastic_wrapper''" by (simp add: class_mapping_def)
  from map_detection_algorithm [of "[''class_name'' \<mapsto> PStr ''CUP'']" "''CUP''" "''cup''" "''paper_cup''"
         "[''class_name'' \<mapsto> PStr ''Wrappers'']" "''Wrappers''" 4]
       l1 e n len hit before v
  show ?thesis by simp
qed

text \<open>
  Claim C10. \<open>map_detection\<close> copies \<^verbatim>\<open>bbox\<close>, \<^verbatim>\<open>confidence\<close> and \<^verbatim>\<open>class_id\<close> of the input
  to the output unchanged when they are present, and puts \<^verbatim>\<open>[0, 0, 0, 0]\<close>, \<^verbatim>\<open>0.0\<close> and
  \<^verbatim>\<open>0\<close> in their place when they are absent; a missing field (also a missing
  \<^verbatim>\<open>class_name\<close>) never makes it fail.
\<close>

theorem map_detection_passthrough:
  assumes "d ''class_name'' = None \<or> (\<exists>s. d ''class_name'' = Some (PStr s))"
  shows "\<exists>m. map_detection d = Inr m \<and>
           md_bbox m = (case d ''bbox'' of Some b \<Rightarrow> b
                        | None \<Rightarrow> PList [PInt 0, PInt 0, PInt 0, PInt 0]) \<and>
           md_confidence m = (case d ''confidence'' of Some c \<Rightarrow> c | None \<Rightarrow> PFloat 0) \<and>
           md_class_id m = (case d ''class_id'' of Some c \<Rightarrow> c | None \<Rightarrow> PInt 0)"
  using assms
  by (auto simp: map_detection_def raw_class_of_def dict_get_def Let_def split: option.splits)

theorem map_detection_passthrough_witness:
  "\<exists>m. map_detection [''bbox'' \<mapsto> PList [PFloat 1, PFloat 2, PFloat 30, PFloat 40]] = Inr m \<and>
       md_bbox m = PList [PFloat 1, PFloat 2, PFloat 30, PFloat 40] \<and>
       md_confidence m = PFloat 0 \<and> md_class_id m = PInt 0"
  using map_detection_passthrough [of "[''bbox'' \<mapsto> PList [PFloat 1, PFloat 2, PFloat 30, PFloat 40]]"]
  by simp

section \<open>Properties of the request handler\<close>

lemma map_detections_length:
  "map_detections dets = Inr ms \<Longrightarrow> length ms = length dets"
  by (induction dets arbitrary: ms) (auto split: sum.splits)

lemma map_detections_nth:
  "map_detections dets = Inr ms \<Longrightarrow> i < length dets \<Longrightarrow> map_detection (dets ! i) = Inr (ms ! i)"
proof (induction dets arbitrary: ms i)
  case Nil
  then show ?case by simp
next
  case (Cons d ds)
  from Cons.prems(1) obtain m rest where
    m: "map_detection d = Inr m" and rest: "map_detections ds = Inr rest" and ms: "ms = m # rest"
    by (auto split: sum.splits)
  show ?case
  proof (cases i)
    case 0
    with m ms show ?thesis by simp
  next
    case (Suc j)
    with Cons.prems(2) have "j < length ds" by simp
    from Cons.IH [OF rest this] Suc ms show ?thesis by simp
  qed
qed

lemma segment_detections_entries:
  "fst (segment_detections io seg img dets) = map (\<lambda>d. fst (segment_detection io seg img d)) dets"
  by (induction dets) (auto simp: Let_def split: prod.splits)

lemma run_detection_empty:
  "detect io det img = Inr [] \<Longrightarrow>
   run_detection io det seg img sg =
     (Inr \<lparr> success = True, detections = [], count = 0, masks = None \<rparr>, [DetectCall img])"
  by (simp add: run_detection_def)

text \<open>
  Claim C1. The claim asks for the key \<^verbatim>\<open>masks\<close> whenever segmentation was requested,
  with \<^verbatim>\<open>masks == []\<close> when the detector finds nothing. The handler returns early in
  that case, before the line that adds the key: for every request with a loaded detector, a
  non-empty uploaded image on which the detector reports no detection and
  \<^verbatim>\<open>segmentation=true\<close>, the response is \<^verbatim>\<open>{success: True, detections: [], count: 0}\<close>
  without the key \<^verbatim>\<open>masks\<close>; the only model call made is the detection.
\<close>

theorem no_detections_omits_masks:
  assumes "detect io det img = Inr []" and "img \<noteq> []"
  shows "detect_waste io (Some det) seg (Some img) b64 True =
           (Inr \<lparr> success = True, detections = [], count = 0, masks = None \<rparr>, [DetectCall img])"
  using assms by (simp add: detect_waste_def get_image_data_def run_detection_empty)

lemma sample_detect_nothing: "detect sample_io (sample_detector []) [1] = Inr []"
  by (simp add: detect_def sample_io_def sample_detector_def sample_model_def)

theorem no_detections_omits_masks_witness:
  "detect_waste sample_io (Some (sample_detector [])) None (Some [1]) None True =
     (Inr \<lparr> success = True, detections = [], count = 0, masks = None \<rparr>, [DetectCall [1]])"
  using no_detections_omits_masks [of sample_io "sample_detector []" "[1]" None None]
        sample_detect_nothing
  by simp

text \<open>
  Claim C2 as stated fails on two inputs. A request with no image source and no loaded
  detector is answered 503, not 400: the detector is checked first. A request with both an
  uploaded file and \<^verbatim>\<open>image_base64\<close> is not rejected: it is served from the file.
\<close>

theorem validation_order_counterexample:
  "detect_waste sample_io None None None None False = (Inl (HTTPException 503), []) \<and>
   (\<exists>r calls. detect_waste sample_io (Some (sample_detector [])) None (Some [1]) (Some ''AAAA'') False
        = (Inr r, calls))"
  by (simp add: detect_waste_def get_image_data_def run_detection_empty sample_detect_nothing)

text \<open>
  Claim C2, amended. The handler checks the detector first: without a loaded detector
  every request is answered 503 and no model is called, whatever image source it carries.
  With a loaded detector, a request with neither an uploaded file nor a non-empty
  \<^verbatim>\<open>image_base64\<close> is answered 400 before any model is called, and a request with an
  uploaded file is served from the file exactly as if \<^verbatim>\<open>image_base64\<close> were absent.
\<close>

theorem image_source_validation:
  "detect_waste io None seg image_file image_base64 sg = (Inl (HTTPException 503), []) \<and>
   detect_waste io (Some det) seg None None sg = (Inl (HTTPException 400), []) \<and>
   detect_waste io (Some det) seg None (Some []) sg = (Inl (HTTPException 400), []) \<and>
   detect_waste io (Some det) seg (Some content) image_base64 sg =
     detect_waste io (Some det) seg (Some content) None sg"
  by (simp add: detect_waste_def get_image_data_def)

lemma segment_detection_entry:
  "fst (segment_detection io seg img d) =
     (case d ''bbox'' of
        None \<Rightarrow> None
      | Some bbox \<Rightarrow>
          (case segment io seg img bbox of
             Inl e \<Rightarrow> None
           | Inr m \<Rightarrow>
               (case encode_mask_to_base64 io m of
                  Inl e \<Rightarrow> None
                | Inr mask_b64 \<Rightarrow> Some mask_b64)))"
  by (simp add: segment_detection_def split: option.splits sum.splits)

text \<open>
  Claim C7. Whenever a response carries the list of masks, the list has the length of the
  list of detections, and both follow the detector's list position by position: entry \<open>i\<close>
  of the detections is the mapping of the detector's item \<open>i\<close>. Entry \<open>i\<close> of the masks is
  \<^verbatim>\<open>None\<close> when there is no segmenter; with a segmenter it is \<^verbatim>\<open>None\<close> when the
  segmentation of item \<open>i\<close> fails (the item has no \<^verbatim>\<open>bbox\<close>, \<open>segment\<close> raises on its box,
  or the encoding of its mask raises), and the encoded mask of item \<open>i\<close> otherwise. So a
  failure puts \<^verbatim>\<open>None\<close> at the index of the failing item and nowhere else, and no entry
  is left out or moved.
\<close>

theorem masks_aligned:
  assumes "detect_waste io detector segmenter image_file image_base64 sg = (Inr resp, calls)"
      and "masks resp = Some ms"
  shows "\<exists>det img dets.
           detector = Some det \<and> detect io det img = Inr dets \<and>
           length ms = length dets \<and> length (detections resp) = length dets \<and>
           (\<forall>i<length dets.
              map_detection (dets ! i) = Inr (detections resp ! i) \<and>
              ms ! i =
                (case segmenter of
                   None \<Rightarrow> None
                 | Some seg \<Rightarrow>
                     (case (dets ! i) ''bbox'' of
                        None \<Rightarrow> None
                      | Some bbox \<Rightarrow>
                          (case segment io seg img bbox of
                             Inl e \<Rightarrow> None
                           | Inr m \<Rightarrow>
                               (case encode_mask_to_base64 io m of
                                  Inl e \<Rightarrow> None
                                | Inr mask_b64 \<Rightarrow> Some mask_b64)))))"
proof -
  from assms(1) obtain det where det: "detector = Some det"
    by (cases detector) (auto simp: detect_waste_def)
  from assms(1) det obtain img where
    run: "run_detection io det segmenter img sg = (Inr resp, calls)"
    by (auto simp: detect_waste_def split: sum.splits if_splits)
  from run obtain dets where dets: "detect io det img = Inr dets"
    by (cases "detect io det img") (auto simp: run_detection_def)
  have ne: "dets \<noteq> []"
  proof
    assume "dets = []"
    with dets run have "masks resp = None" by (auto simp: run_detection_def)
    with assms(2) show False by simp
  qed
  from run dets ne obtain mapped where mapped: "map_detections dets = Inr mapped"
    by (cases "map_detections dets") (auto simp: run_detection_def)
  from run dets ne mapped have d: "detections resp = mapped"
    by (auto simp: run_detection_def split: prod.splits)
  from run dets ne mapped assms(2) have sg: "sg"
    by (auto simp: run_detection_def split: prod.splits if_splits)
  from run dets ne mapped sg have
    "masks resp = Some (case segmenter of
                          Some seg \<Rightarrow> fst (segment_detections io seg img dets)
                        | None \<Rightarrow> replicate (length dets) None)"
    by (auto simp: run_detection_def split: prod.splits option.splits)
  with assms(2) have ms: "ms = (case segmenter of
                          Some seg \<Rightarrow> fst (segment_detections io seg img dets)
                        | None \<Rightarrow> replicate (length dets) None)"
    by simp
  have len: "length ms = length dets"
    unfolding ms by (simp add: segment_detections_entries split: option.splits)
  have entries: "ms ! i =
                (case segmenter of
                   None \<Rightarrow> None
                 | Some seg \<Rightarrow>
                     (case (dets ! i) ''bbox'' of
                        None \<Rightarrow> None
                      | Some bbox \<Rightarrow>
                          (case segment io seg img bbox of
                             Inl e \<Rightarrow> None
                           | Inr m \<Rightarrow>
                               (case encode_mask_to_base64 io m of
                                  Inl e \<Rightarrow> None
                                | Inr mask_b64 \<Rightarrow> Some mask_b64))))"
    if "i < length dets" for i
  proof (cases segmenter)
    case None
    with that show ?thesis unfolding ms by simp
  next
    case (Some seg)
    with that have "ms ! i = fst (segment_detection io seg img (dets ! i))"
      unfolding ms by (simp add: segment_detections_entries)
    with Some show ?thesis by (simp add: segment_detection_entry)
  qed
  have maps: "map_detection (dets ! i) = Inr (detections resp ! i)" if "i < length dets" for i
    using map_detections_nth [OF mapped that] d by simp
  from det dets len entries maps map_detections_length [OF mapped] d
  show ?thesis by auto
qed

lemma sample_detect_boxes:
  assumes "image_open io [1] = Inr img"
  shows "detect io (sample_detector sample_boxes) [1] =
     Inr [[''bbox'' \<mapsto> PList [PFloat 0, PFloat 0, PFloat 1, PFloat 1],
           ''confidence'' \<mapsto> PFloat 0.9, ''class_id'' \<mapsto> PInt 39,
           ''class_name'' \<mapsto> PStr ''bottle''],
          [''bbox'' \<mapsto> PList [PFloat 1, PFloat 0, PFloat 3, PFloat 2],
           ''confidence'' \<mapsto> PFloat 0.5, ''class_id'' \<mapsto> PInt 41,
           ''class_name'' \<mapsto> PStr ''cup'']]"
  using assms
  by (simp add: detect_def sample_detector_def sample_model_def sample_boxes_def
        box_detection_def py_int_def)

theorem masks_aligned_witness:
  "(\<exists>resp calls.
      detect_waste strict_io (Some (sample_detector sample_boxes))
        (Some \<lparr> seg_predictor = Some picky_predictor \<rparr>) (Some [1]) None True = (Inr resp, calls) \<and>
      masks resp = Some [Some ''data:image/png;base64,/wAAAP//'', None] \<and>
      length (detections resp) = 2) \<and>
   (\<exists>resp calls.
      detect_waste sample_io (Some (sample_detector sample_boxes))
        (Some \<lparr> seg_predictor = None \<rparr>) (Some [1]) None True = (Inr resp, calls) \<and>
      masks resp = Some [None, None] \<and>
      length (detections resp) = 2)"
proof
  let ?seg = "\<lparr> seg_predictor = Some picky_predictor \<rparr>"
  let ?run = "detect_waste strict_io (Some (sample_detector sample_boxes)) (Some ?seg)
                (Some [1]) None True"
  have png: "lower ''PNG'' = ''png''" by code_simp
  have opn: "image_open strict_io data = Inr \<lparr> img_height = 2, img_width = 3, img_pixels = data \<rparr>"
    for data by (simp add: strict_io_def)
  have mb: "mask_binary [[True, False, False], [False, True, True]] = [[255, 0, 0], [0, 255, 255]]"
    by (simp add: mask_binary_def)
  have me: "mask_binary [] = []"
    by (simp add: mask_binary_def)
  have sav: "png_save strict_io m = (if concat m = [] then Inl ValueError else Inr (concat m))"
    for m by (simp add: strict_io_def)
  have "\<exists>resp calls. ?run = (Inr resp, calls) \<and>
          masks resp = Some [Some ''data:image/png;base64,/wAAAP//'', None]"
    by (simp add: detect_waste_def get_image_data_def run_detection_def
          sample_detect_boxes [OF opn]
          map_detection_def raw_class_of_def dict_get_def Let_def
          segment_detection_def segment_def unpack4_def box_center_def half_sum_def
          as_int_def is_float_def
          predict_mask_def picky_predictor_def opn sav mb me
          encode_mask_to_base64_def encode_image_to_base64_def png b64_char_def b64_alphabet_def)
  then obtain resp calls where r: "?run = (Inr resp, calls)"
    and m: "masks resp = Some [Some ''data:image/png;base64,/wAAAP//'', None]"
    by blast
  from masks_aligned [OF r m] have "length (detections resp) = 2" by auto
  with r m show "\<exists>resp calls. ?run = (Inr resp, calls) \<and>
      masks resp = Some [Some ''data:image/png;base64,/wAAAP//'', None] \<and>
      length (detections resp) = 2"
    by blast
next
  let ?seg = "\<lparr> seg_predictor = None \<rparr>"
  let ?run = "detect_waste sample_io (Some (sample_detector sample_boxes)) (Some ?seg)
                (Some [1]) None True"
  have opn: "image_open sample_io data = Inr \<lparr> img_height = 2, img_width = 3, img_pixels = data \<rparr>"
    for data by (simp add: sample_io_def)
  have "\<exists>resp calls. ?run = (Inr resp, calls) \<and> masks resp = Some [None, None]"
    by (simp add: detect_waste_def get_image_data_def run_detection_def
          sample_detect_boxes [OF opn]
          map_detection_def raw_class_of_def dict_get_def Let_def
          segment_detection_def segment_def)
  then obtain resp calls where r: "?run = (Inr resp, calls)"
    and m: "masks resp = Some [None, None]"
    by blast
  from masks_aligned [OF r m] have "length (detections resp) = 2" by auto
  with r m show "\<exists>resp calls. ?run = (Inr resp, calls) \<and>
      masks resp = Some [None, None] \<and> length (detections resp) = 2"
    by blast
qed

section \<open>Properties of the segmenter\<close>

text \<open>Every detection that the detector builds carries a box of four floats.\<close>

lemma box_detection_bbox:
  "box_detection m b = Inr d \<Longrightarrow>
   d ''bbox'' = Some (PList [PFloat (box_x1 b), PFloat (box_y1 b),
                            PFloat (box_x2 b), PFloat (box_y2 b)])"
  by (auto simp: box_detection_def Let_def split: sum.splits option.splits)

lemma run_detection_succeeds:
  assumes "detect io d img = Inr dets" and "map_detections dets = Inr mapped"
  shows "\<exists>resp calls. run_detection io d seg img sg = (Inr resp, calls)"
  using assms by (auto simp: run_detection_def split: prod.splits)

text \<open>
  What stands before the \<^verbatim>\<open>try\<close> of \<open>segment\<close> can raise on a value that is not a
  bounding box: a list of three items does not unpack, and integers beyond the range of a
  float overflow in the division.
\<close>

lemma segment_not_a_box:
  "segment sample_io \<lparr> seg_predictor = Some good_predictor \<rparr> [1]
       (PList [PFloat 1, PFloat 2, PFloat 3]) = Inl ValueError \<and>
   segment sample_io \<lparr> seg_predictor = Some good_predictor \<rparr> [1]
       (PList [PInt (10 ^ 310), PInt 0, PInt (10 ^ 310), PInt 1]) = Inl OverflowError"
  by (simp add: segment_def sample_io_def unpack4_def box_center_def half_sum_def
        as_int_def float_overflow_def)

lemma segment_returns:
  assumes "seg_predictor self = Some p"
      and "image_open io image_data = Inr image_rgb"
  shows "\<exists>m. segment io self image_data (PList [PFloat x1, PFloat y1, PFloat x2, PFloat y2])
              = Inr m"
  using assms
  by (auto simp: segment_def unpack4_def box_center_def half_sum_def as_int_def is_float_def
        Let_def split: sum.splits)

text \<open>
  Claim C8. The bounding box of the data model is a list of four floats, and every box the
  detector builds is one. On a ready segmenter, with decodable image bytes and such a box,
  \<open>segment\<close> always returns a mask and never raises; when anything inside its \<^verbatim>\<open>try\<close>
  block fails (\<^verbatim>\<open>set_image\<close>, \<^verbatim>\<open>predict\<close>, an empty list of masks, an unknown predictor
  API), the mask returned has the image's height and width and is zero everywhere. So
  \<open>segment\<close> returns a mask on the box of every detection the detector builds, and the
  handler returns a response once detection and mapping have succeeded: segmentation never
  aborts the request.
\<close>

theorem segment_failure_gives_zeros:
  assumes "seg_predictor self = Some p"
      and "image_open io image_data = Inr image_rgb"
      and "bbox = PList [PFloat x1, PFloat y1, PFloat x2, PFloat y2]"
  shows "(\<exists>m. segment io self image_data bbox = Inr m) \<and>
         (\<forall>e. predict_mask p image_rgb [PFloat x1, PFloat y1, PFloat x2, PFloat y2] = Inl e \<longrightarrow>
              segment io self image_data bbox
                = Inr (replicate (img_height image_rgb) (replicate (img_width image_rgb) 0))) \<and>
         (\<forall>mdl b det. box_detection mdl b = Inr det \<longrightarrow>
              (\<exists>box m. det ''bbox'' = Some box \<and> segment io self image_data box = Inr m)) \<and>
         (\<forall>d dets mapped sg.
              detect io d image_data = Inr dets \<and> map_detections dets = Inr mapped \<longrightarrow>
              (\<exists>resp calls. run_detection io d (Some self) image_data sg = (Inr resp, calls)))"
proof (intro conjI allI impI)
  show "\<exists>m. segment io self image_data bbox = Inr m"
    unfolding assms(3) using assms(1,2) by (rule segment_returns)
next
  fix e
  assume "predict_mask p image_rgb [PFloat x1, PFloat y1, PFloat x2, PFloat y2] = Inl e"
  with assms show "segment io self image_data bbox
                = Inr (replicate (img_height image_rgb) (replicate (img_width image_rgb) 0))"
    by (simp add: segment_def unpack4_def box_center_def half_sum_def as_int_def is_float_def
          zeros_def Let_def)
next
  fix mdl b det
  assume "box_detection mdl b = Inr det"
  then have "det ''bbox'' = Some (PList [PFloat (box_x1 b), PFloat (box_y1 b),
                                        PFloat (box_x2 b), PFloat (box_y2 b)])"
    by (rule box_detection_bbox)
  moreover from assms(1,2) have
    "\<exists>m. segment io self image_data (PList [PFloat (box_x1 b), PFloat (box_y1 b),
                                             PFloat (box_x2 b), PFloat (box_y2 b)]) = Inr m"
    by (rule segment_returns)
  ultimately show "\<exists>box m. det ''bbox'' = Some box \<and> segment io self image_data box = Inr m"
    by blast
next
  fix d dets mapped sg
  assume "detect io d image_data = Inr dets \<and> map_detections dets = Inr mapped"
  then show "\<exists>resp calls. run_detection io d (Some self) image_data sg = (Inr resp, calls)"
    using run_detection_succeeds by blast
qed

theorem segment_failure_gives_zeros_witness:
  "segment sample_io \<lparr> seg_predictor = Some failing_predictor \<rparr> [1]
       (PList [PFloat 0, PFloat 0, PFloat 1, PFloat 1]) = Inr [[0, 0, 0], [0, 0, 0]] \<and>
   (\<exists>resp calls.
      run_detection sample_io (sample_detector sample_boxes)
        (Some \<lparr> seg_predictor = Some failing_predictor \<rparr>) [1] True = (Inr resp, calls))"
proof -
  let ?self = "\<lparr> seg_predictor = Some failing_predictor \<rparr>"
  let ?img = "\<lparr> img_height = 2, img_width = 3, img_pixels = [1] \<rparr>"
  have a1: "seg_predictor ?self = Some failing_predictor" by simp
  have a2: "image_open sample_io [1] = Inr ?img" by (simp add: sample_io_def)
  have fails: "predict_mask failing_predictor ?img [PFloat 0, PFloat 0, PFloat 1, PFloat 1]
                 = Inl RuntimeError"
    by (simp add: predict_mask_def failing_predictor_def)
  have dets: "\<exists>dets mapped. detect sample_io (sample_detector sample_boxes) [1] = Inr dets \<and>
                map_detections dets = Inr mapped"
    by (simp add: sample_detect_boxes [OF a2] map_detection_def raw_class_of_def dict_get_def
          Let_def)
  note inst = segment_failure_gives_zeros [OF a1 a2 refl, of 0 0 1 1]
  from inst fails have
    "segment sample_io ?self [1] (PList [PFloat 0, PFloat 0, PFloat 1, PFloat 1])
       = Inr (replicate (img_height ?img) (replicate (img_width ?img) 0))"
    by blast
  then have z: "segment sample_io ?self [1] (PList [PFloat 0, PFloat 0, PFloat 1, PFloat 1])
       = Inr [[0, 0, 0], [0, 0, 0]]"
    by (simp add: numeral_2_eq_2 numeral_3_eq_3)
  from inst dets have
    "\<exists>resp calls. run_detection sample_io (sample_detector sample_boxes) (Some ?self) [1] True
        = (Inr resp, calls)"
    by blast
  with z show ?thesis by blast
qed

section \<open>Properties of the detector\<close>

lemma fallback_fails:
  "\<not> ultralytics_installed env \<or> isl (YOLO env ''yolov8n.pt'') \<Longrightarrow>
   load_yolov8_fallback env s = Inl RuntimeError"
  by (auto simp: load_yolov8_fallback_def split: sum.splits)

lemma load_yolov8_fallback_ready:
  "load_yolov8_fallback env s = Inr d \<Longrightarrow> is_ready d"
  by (auto simp: load_yolov8_fallback_def is_ready_def split: sum.splits if_splits)

lemma load_with_ultralytics_ready:
  "load_with_ultralytics env p s = Returned d \<Longrightarrow> is_ready d"
  by (auto simp: load_with_ultralytics_def is_ready_def split: sum.splits if_splits)

lemma init_detector_ready: "init_detector env p = Inr d \<Longrightarrow> is_ready d"
  by (auto simp: init_detector_def load_yolov10_def Let_def
        dest: load_yolov8_fallback_ready load_with_ultralytics_ready
        split: if_splits attempt.splits option.splits sum.splits)

text \<open>
  Claim C9 as stated fails: when neither the preferred model nor the fallback can be
  loaded, the constructor of the detector raises RuntimeError. It does not complete, and
  there is no adapter whose \<open>is_ready\<close> could be asked.
\<close>

theorem init_raises_counterexample:
  "init_detector bare_env ''models/yolov10e.pt'' = Inl RuntimeError \<and>
   init_detector broken_env ''models/yolov10e.pt'' = Inl RuntimeError"
  by (simp add: init_detector_def load_yolov10_def load_with_ultralytics_def
        load_yolov8_fallback_def bare_env_def broken_env_def)

text \<open>
  Claim C9, amended. When the fallback load fails (\<^verbatim>\<open>ultralytics\<close> is missing or
  \<^verbatim>\<open>YOLO("yolov8n.pt")\<close> raises) and the preferred load fails (the model file is missing,
  or the first \<^verbatim>\<open>try\<close> of \<^verbatim>\<open>_load_yolov10\<close> does not return), the constructor raises
  RuntimeError; the startup code catches it and leaves the detector at \<^verbatim>\<open>None\<close>, the
  liveness summary reports the detector as not ready, and \<^verbatim>\<open>/detect\<close> answers 503
  without calling a model. \<open>detect\<close> on an adapter whose
  model is \<^verbatim>\<open>None\<close> is not ready and raises RuntimeError instead of returning a list.
\<close>

theorem both_loads_fail:
  assumes "\<not> ultralytics_installed env \<or> isl (YOLO env ''yolov8n.pt'')"
      and "\<not> path_exists env p \<or> (\<forall>s s'. load_with_ultralytics env p s \<noteq> Returned s')"
  shows "init_detector env p = Inl RuntimeError \<and>
         lifespan_detector env p = None \<and>
         \<not> detector_ready (root (lifespan_detector env p) seg) \<and>
         detect_waste io (lifespan_detector env p) seg image_file image_base64 sg
           = (Inl (HTTPException 503), []) \<and>
         (\<forall>self. model self = None \<longrightarrow>
            \<not> is_ready self \<and> detect io self image_data = Inl RuntimeError)"
proof -
  note fb = fallback_fails [OF assms(1)]
  have init: "init_detector env p = Inl RuntimeError"
  proof (cases "path_exists env p")
    case False
    then show ?thesis by (simp add: init_detector_def fb)
  next
    case True
    with assms(2) have nr: "\<forall>s s'. load_with_ultralytics env p s \<noteq> Returned s'" by blast
    have "load_yolov10 env p s = Inl RuntimeError" for s
      using nr [rule_format, of s]
      by (cases "load_with_ultralytics env p s")
         (auto simp: load_yolov10_def fb Let_def split: option.splits)
    with True show ?thesis by (simp add: init_detector_def)
  qed
  then have life: "lifespan_detector env p = None" by (simp add: lifespan_detector_def)
  have "detect_waste io (lifespan_detector env p) seg image_file image_base64 sg
           = (Inl (HTTPException 503), [])"
    unfolding life by (simp add: detect_waste_def)
  moreover have "\<forall>self. model self = None \<longrightarrow>
            \<not> is_ready self \<and> detect io self image_data = Inl RuntimeError"
    by (simp add: is_ready_def detect_def)
  moreover have "\<not> detector_ready (root (lifespan_detector env p) seg)"
    unfolding life by (simp add: root_def)
  ultimately show ?thesis using init life by blast
qed

theorem both_loads_fail_witness:
  "init_detector broken_env ''models/yolov10e.pt'' = Inl RuntimeError \<and>
   lifespan_detector broken_env ''models/yolov10e.pt'' = None \<and>
   \<not> detector_ready (root (lifespan_detector broken_env ''models/yolov10e.pt'') None) \<and>
   detect_waste sample_io (lifespan_detector broken_env ''models/yolov10e.pt'') None (Some [1]) None False
     = (Inl (HTTPException 503), []) \<and>
   detect sample_io \<lparr> device = ''cpu'', model = None, model_name = None,
                      conf_threshold = 0.25, iou_threshold = 0.45 \<rparr> [1] = Inl RuntimeError"
proof -
  have a1: "\<not> ultralytics_installed broken_env \<or> isl (YOLO broken_env ''yolov8n.pt'')"
    by (simp add: broken_env_def)
  have a2: "\<not> path_exists broken_env ''models/yolov10e.pt'' \<or>
            (\<forall>s s'. load_with_ultralytics broken_env ''models/yolov10e.pt'' s \<noteq> Returned s')"
    by (simp add: load_with_ultralytics_def broken_env_def)
  from both_loads_fail [of _ _ None sample_io "Some [1]" None False "[1]", OF a1 a2]
  show ?thesis by (simp add: detect_waste_def root_def)
qed

section \<open>Properties of the image codec\<close>

text \<open>
  The masks 3, 15 and 63 cut a byte down to its low 2, 4 and 6 bits; with them every
  equation between the bytes and the six-bit digits of a group is an equation between
  bits.
\<close>

lemma and3: "(a::byte) AND 3 = take_bit 2 a"
  by (simp add: take_bit_eq_mask mask_eq_exp_minus_1)

lemma and15: "(a::byte) AND 15 = take_bit 4 a"
  by (simp add: take_bit_eq_mask mask_eq_exp_minus_1)

lemma and63: "(a::byte) AND 63 = take_bit 6 a"
  by (simp add: take_bit_eq_mask mask_eq_exp_minus_1)

lemma Suc2: "Suc (Suc 0) = 2"
  by simp

lemma Suc3: "Suc (Suc (Suc 0)) = 3"
  by simp

lemma byte_bit: "bit (a::byte) n \<Longrightarrow> n < 8"
  using bit_imp_le_length [of a n] by simp

lemma below_8: "n < 8 \<Longrightarrow> n \<in> {0, 1, 2, 3, 4, 5, 6, 7::nat}"
  by auto

lemmas byte_bits = bit_simps Suc2 Suc3

lemma sextet_table:
  "list_all (\<lambda>n. b64_index (b64_alphabet ! n) = Some (of_nat n)) [0..<64]"
  by code_simp

lemma sextet_chars:
  "list_all (\<lambda>c. c \<noteq> CHR ''='' \<and> c \<noteq> CHR '','' \<and> \<not> isspace c \<and> (of_char c :: nat) < 128)
     b64_alphabet"
  by code_simp

lemma b64_index_char:
  assumes "v AND 63 = v"
  shows "b64_index (b64_char v) = Some v"
proof -
  have "unat (v AND 63) \<le> unat (63 :: byte)"
    by (rule word_and_le1 [THEN word_le_nat_alt [THEN iffD1]])
  with assms have "unat v < 64" by simp
  then have "unat v \<in> set [0..<64]" by simp
  with sextet_table have "b64_index (b64_alphabet ! unat v) = Some (of_nat (unat v))"
    unfolding list_all_iff by blast
  then show ?thesis by (simp add: b64_char_def)
qed

lemma b64_char_in_alphabet:
  assumes "v AND 63 = v"
  shows "b64_char v \<in> set b64_alphabet"
proof -
  have "unat (v AND 63) \<le> unat (63 :: byte)"
    by (rule word_and_le1 [THEN word_le_nat_alt [THEN iffD1]])
  with assms have "unat v < 64" by simp
  moreover have "length b64_alphabet = 64" by (simp add: b64_alphabet_def)
  ultimately show ?thesis by (simp add: b64_char_def)
qed

lemma sextet0: "drop_bit 2 a AND 63 = drop_bit 2 (a::byte)"
  unfolding and3 and15 and63
  by (rule bit_word_eqI) (auto simp: byte_bits dest!: below_8 dest: byte_bit)

lemma sextet1:
  "(push_bit 4 (a AND 3) OR drop_bit 4 b) AND 63 = push_bit 4 (a AND 3) OR drop_bit 4 (b::byte)"
  unfolding and3 and15 and63
  by (rule bit_word_eqI) (auto simp: byte_bits dest!: below_8 dest: byte_bit)

lemma sextet1_last: "push_bit 4 (a AND 3) AND 63 = push_bit 4 ((a::byte) AND 3)"
  unfolding and3 and15 and63
  by (rule bit_word_eqI) (auto simp: byte_bits dest!: below_8 dest: byte_bit)

lemma sextet2:
  "(push_bit 2 (b AND 15) OR drop_bit 6 c) AND 63 = push_bit 2 (b AND 15) OR drop_bit 6 (c::byte)"
  unfolding and3 and15 and63
  by (rule bit_word_eqI) (auto simp: byte_bits dest!: below_8 dest: byte_bit)

lemma sextet2_last: "push_bit 2 (b AND 15) AND 63 = push_bit 2 ((b::byte) AND 15)"
  unfolding and3 and15 and63
  by (rule bit_word_eqI) (auto simp: byte_bits dest!: below_8 dest: byte_bit)

lemma sextet3: "(c AND 63) AND 63 = (c::byte) AND 63"
  by simp

lemma octet1:
  "push_bit 2 (drop_bit 2 a) OR drop_bit 4 (push_bit 4 (a AND 3) OR drop_bit 4 b) = (a::byte)"
  unfolding and3 and15 and63
  by (rule bit_word_eqI) (auto simp: byte_bits dest!: below_8 dest: byte_bit)

lemma octet1_last:
  "push_bit 2 (drop_bit 2 a) OR drop_bit 4 (push_bit 4 (a AND 3)) = (a::byte)"
  unfolding and3 and15 and63
  by (rule bit_word_eqI) (auto simp: byte_bits dest!: below_8 dest: byte_bit)

lemma octet2:
  "push_bit 4 ((push_bit 4 (a AND 3) OR drop_bit 4 b) AND 15)
     OR drop_bit 2 (push_bit 2 (b AND 15) OR drop_bit 6 c) = (b::byte)"
  unfolding and3 and15 and63
  by (rule bit_word_eqI) (auto simp: byte_bits dest!: below_8 dest: byte_bit)

lemma octet2_last:
  "push_bit 4 ((push_bit 4 (a AND 3) OR drop_bit 4 b) AND 15)
     OR drop_bit 2 (push_bit 2 (b AND 15)) = (b::byte)"
  unfolding and3 and15 and63
  by (rule bit_word_eqI) (auto simp: byte_bits dest!: below_8 dest: byte_bit)

lemma octet3:
  "push_bit 6 ((push_bit 2 (b AND 15) OR drop_bit 6 c) AND 3) OR (c AND 63) = (c::byte)"
  unfolding and3 and15 and63
  by (rule bit_word_eqI) (auto simp: byte_bits dest!: below_8 dest: byte_bit)

lemma b64_char_not_pad:
  assumes "v AND 63 = v"
  shows "b64_char v \<noteq> CHR ''=''"
  using b64_char_in_alphabet [OF assms] sextet_chars unfolding list_all_iff by blast

lemma a2b_base64_quad:
  assumes "v0 AND 63 = v0" and "v1 AND 63 = v1" and "v2 AND 63 = v2" and "v3 AND 63 = v3"
  shows "a2b_base64 0 l p out (b64_char v0 # b64_char v1 # b64_char v2 # b64_char v3 # cs)
         = a2b_base64 0 0 0
             (out @ [push_bit 2 v0 OR drop_bit 4 v1,
                     push_bit 4 (v1 AND 15) OR drop_bit 2 v2,
                     push_bit 6 (v2 AND 3) OR v3]) cs"
  using assms by (simp add: b64_char_not_pad b64_index_char)

lemma a2b_base64_pad2:
  assumes "v0 AND 63 = v0" and "v1 AND 63 = v1"
  shows "a2b_base64 0 l p out [b64_char v0, b64_char v1, CHR ''='', CHR ''='']
         = Inr (out @ [push_bit 2 v0 OR drop_bit 4 v1])"
  using assms by (simp add: b64_char_not_pad b64_index_char)

lemma a2b_base64_pad1:
  assumes "v0 AND 63 = v0" and "v1 AND 63 = v1" and "v2 AND 63 = v2"
  shows "a2b_base64 0 l p out [b64_char v0, b64_char v1, b64_char v2, CHR ''='']
         = Inr (out @ [push_bit 2 v0 OR drop_bit 4 v1,
                       push_bit 4 (v1 AND 15) OR drop_bit 2 v2])"
  using assms by (simp add: b64_char_not_pad b64_index_char)

lemma a2b_base64_group:
  "a2b_base64 0 l p out
     (b64_char (drop_bit 2 a) #
      b64_char (push_bit 4 (a AND 3) OR drop_bit 4 b) #
      b64_char (push_bit 2 (b AND 15) OR drop_bit 6 c) #
      b64_char (c AND 63) # cs)
   = a2b_base64 0 0 0 (out @ [a, b, c]) cs"
  using a2b_base64_quad [OF sextet0 sextet1 sextet2 sextet3, of l p out a a b b c c cs]
  by (simp only: octet1 octet2 octet3)

lemma a2b_base64_last1:
  "a2b_base64 0 l p out
     [b64_char (drop_bit 2 a), b64_char (push_bit 4 (a AND 3)), CHR ''='', CHR ''='']
   = Inr (out @ [a])"
  using a2b_base64_pad2 [OF sextet0 sextet1_last, of l p out a a]
  by (simp only: octet1_last)

lemma a2b_base64_last2:
  "a2b_base64 0 l p out
     [b64_char (drop_bit 2 a),
      b64_char (push_bit 4 (a AND 3) OR drop_bit 4 b),
      b64_char (push_bit 2 (b AND 15)),
      CHR ''='']
   = Inr (out @ [a, b])"
  using a2b_base64_pad1 [OF sextet0 sextet1 sextet2_last, of l p out a a b b]
  by (simp only: octet1 octet2_last)

lemma a2b_base64_b64encode:
  "a2b_base64 0 l p out (b64encode bs) = Inr (out @ bs)"
proof (induction bs arbitrary: l p out rule: b64encode.induct)
  case 1
  show ?case by simp
next
  case (2 a)
  show ?case using a2b_base64_last1 [of l p out a] by (simp only: b64encode.simps)
next
  case (3 a b)
  show ?case using a2b_base64_last2 [of l p out a b] by (simp only: b64encode.simps)
next
  case (4 a b c rest)
  have "a2b_base64 0 l p out (b64encode (a # b # c # rest))
          = a2b_base64 0 0 0 (out @ [a, b, c]) (b64encode rest)"
    using a2b_base64_group [of l p out a b c "b64encode rest"]
    by (simp only: b64encode.simps append.simps)
  also have "\<dots> = Inr ((out @ [a, b, c]) @ rest)" by (rule "4.IH")
  finally show ?case by simp
qed

lemma b64encode_chars:
  "set (b64encode bs) \<subseteq> insert CHR ''='' (set b64_alphabet)"
proof (induction bs rule: b64encode.induct)
  case 1
  show ?case by simp
next
  case (2 a)
  show ?case
    using b64_char_in_alphabet [OF sextet0, of a] b64_char_in_alphabet [OF sextet1_last, of a]
    by simp
next
  case (3 a b)
  show ?case
    using b64_char_in_alphabet [OF sextet0, of a] b64_char_in_alphabet [OF sextet1, of a b]
          b64_char_in_alphabet [OF sextet2_last, of b]
    by simp
next
  case (4 a b c rest)
  then show ?case
    using b64_char_in_alphabet [OF sextet0, of a] b64_char_in_alphabet [OF sextet1, of a b]
          b64_char_in_alphabet [OF sextet2, of b c] b64_char_in_alphabet [OF sextet3, of c]
    by simp
qed

lemma b64encode_char:
  assumes "c \<in> set (b64encode bs)"
  shows "c \<noteq> CHR '','' \<and> \<not> isspace c \<and> (of_char c :: nat) < 128"
proof (cases "c = CHR ''=''")
  case True
  then show ?thesis by (simp add: isspace_def)
next
  case False
  with assms b64encode_chars have "c \<in> set b64_alphabet" by blast
  with sextet_chars show ?thesis unfolding list_all_iff by blast
qed

lemma b64decode_b64encode: "b64decode (b64encode bs) = Inr bs"
proof -
  have "\<not> (\<exists>c \<in> set (b64encode bs). 128 \<le> (of_char c :: nat))"
    using b64encode_char [of _ bs] by (auto simp: not_le)
  then show ?thesis
    using a2b_base64_b64encode [of 0 0 "[]" bs] by (simp add: b64decode_def)
qed

lemma strip_no_space:
  assumes "\<forall>c \<in> set s. \<not> isspace c"
  shows "strip s = s"
proof -
  have keep: "dropWhile isspace xs = xs" if "\<forall>c \<in> set xs. \<not> isspace c" for xs
    using that by (cases xs) auto
  from assms have "\<forall>c \<in> set (rev s). \<not> isspace c" by simp
  with keep [of "rev s"] keep [OF assms] show ?thesis by (simp add: strip_def)
qed

lemma split_no_sep: "sep \<notin> set s \<Longrightarrow> split sep s = [s]"
  by (induction s) auto

lemma split_at_first:
  "sep \<notin> set pre \<Longrightarrow> split sep (pre @ sep # rest) = pre # split sep rest"
  by (induction pre) auto

lemma decode_image_plain: "decode_image (b64encode bs) = Inr bs"
proof -
  have "CHR '','' \<notin> set (b64encode bs)" using b64encode_char [of _ bs] by blast
  moreover have "strip (b64encode bs) = b64encode bs"
    using b64encode_char [of _ bs] by (intro strip_no_space) blast
  ultimately show ?thesis by (simp add: decode_image_def b64decode_b64encode)
qed

text \<open>
  Claim C6. For every byte string, \<open>decode_image\<close> gives the bytes back from the data URL
  that \<open>encode_image_to_base64\<close> builds (with its default format \<^verbatim>\<open>"PNG"\<close>), and also
  from the plain base64 text without the data-URL prefix.
\<close>

theorem decode_encode_roundtrip:
  "decode_image (encode_image_to_base64 bs ''PNG'') = Inr bs \<and>
   decode_image (b64encode bs) = Inr bs"
proof
  have png: "lower ''PNG'' = ''png''" by code_simp
  have url: "encode_image_to_base64 bs ''PNG''
               = ''data:image/png;base64'' @ CHR '','' # b64encode bs"
    by (simp add: encode_image_to_base64_def png)
  have nc: "CHR '','' \<notin> set (b64encode bs)" using b64encode_char [of _ bs] by blast
  have "split CHR '','' (''data:image/png;base64'' @ CHR '','' # b64encode bs)
          = [''data:image/png;base64'', b64encode bs]"
    by (subst split_at_first) (simp_all add: split_no_sep [OF nc])
  moreover have "strip (b64encode bs) = b64encode bs"
    using b64encode_char [of _ bs] by (intro strip_no_space) blast
  ultimately show "decode_image (encode_image_to_base64 bs ''PNG'') = Inr bs"
    unfolding url by (simp add: decode_image_def b64decode_b64encode)
  show "decode_image (b64encode bs) = Inr bs" by (rule decode_image_plain)
qed

theorem decode_encode_roundtrip_witness:
  "decode_image ''data:image/png;base64,SGkhAP8='' = Inr [72, 105, 33, 0, 255] \<and>
   decode_image ''SGkhAP8='' = Inr [72, 105, 33, 0, 255]"
proof -
  have e: "b64encode [72, 105, 33, 0, 255] = ''SGkhAP8=''"
    by (simp add: b64_char_def b64_alphabet_def)
  have png: "lower ''PNG'' = ''png''" by code_simp
  have u: "encode_image_to_base64 [72, 105, 33, 0, 255] ''PNG'' = ''data:image/png;base64,SGkhAP8=''"
    by (simp add: encode_image_to_base64_def png e del: b64encode.simps)
  from decode_encode_roundtrip [of "[72, 105, 33, 0, 255]"] show ?thesis
    unfolding u e .
qed

end
